theory Spec2Isabelle
  imports Complex_Main "HOL-Library.Monad_Syntax"
begin

section \<open>Constants and cell types\<close>

text \<open>
  The module-level constants of \<^verbatim>\<open>main.py\<close> that the game logic reads. Record fields
  carry a prefix naming their class (\<open>p_\<close> Player, \<open>o_\<close> GameObject, \<open>c_\<close> Chunk,
  \<open>w_\<close> World, \<open>g_\<close> Game), since several classes share field names such as \<open>x\<close>,
  \<open>chunk_x\<close> and \<open>mastered\<close>. Fields that only drawing reads (colours) are left out.
\<close>

definition TILE_SIZE :: int where "TILE_SIZE = 32"
definition CHUNK_SIZE :: int where "CHUNK_SIZE = 16"

definition WINDOW_MODE_FULLSCREEN :: int where "WINDOW_MODE_FULLSCREEN = 1"

definition DIRECTION_UP :: int where "DIRECTION_UP = 0"
definition DIRECTION_RIGHT :: int where "DIRECTION_RIGHT = 1"
definition DIRECTION_DOWN :: int where "DIRECTION_DOWN = 2"
definition DIRECTION_LEFT :: int where "DIRECTION_LEFT = 3"

definition LANGUAGES :: "string list" where
  "LANGUAGES = [''spanish'', ''french'']"

text \<open>
  The entries of \<^verbatim>\<open>GAME_OBJECTS\<close>. Every tile of a grid is a reference to one of
  these twelve dictionaries, so a tile is modelled by the constructor naming its entry and
  the dictionary's fields by functions on it. Labels outside ASCII are their UTF-8 bytes.
\<close>

datatype cell_type =
  Tree | Water | Stone | House | Grass | Path | Flower | Mushroom | Log | Bush | Rabbit | Bird

definition GAME_OBJECTS :: "cell_type list" where
  "GAME_OBJECTS =
     [Tree, Water, Stone, House, Grass, Path, Flower, Mushroom, Log, Bush, Rabbit, Bird]"

fun name_of :: "cell_type \<Rightarrow> string" where
  "name_of Tree = ''tree''"
| "name_of Water = ''water''"
| "name_of Stone = ''stone''"
| "name_of House = ''house''"
| "name_of Grass = ''grass''"
| "name_of Path = ''path''"
| "name_of Flower = ''flower''"
| "name_of Mushroom = ''mushroom''"
| "name_of Log = ''log''"
| "name_of Bush = ''bush''"
| "name_of Rabbit = ''rabbit''"
| "name_of Bird = ''bird''"

fun english_of :: "cell_type \<Rightarrow> string" where
  "english_of t = name_of t"

fun spanish_of :: "cell_type \<Rightarrow> string" where
  "spanish_of Tree = CHR 0xC3 # CHR 0xA1 # ''rbol''"
| "spanish_of Water = ''agua''"
| "spanish_of Stone = ''piedra''"
| "spanish_of House = ''casa''"
| "spanish_of Grass = ''hierba''"
| "spanish_of Path = ''camino''"
| "spanish_of Flower = ''flor''"
| "spanish_of Mushroom = ''hongo''"
| "spanish_of Log = ''tronco''"
| "spanish_of Bush = ''arbusto''"
| "spanish_of Rabbit = ''conejo''"
| "spanish_of Bird = ''p'' @ CHR 0xC3 # CHR 0xA1 # ''jaro''"

fun french_of :: "cell_type \<Rightarrow> string" where
  "french_of Tree = ''arbre''"
| "french_of Water = ''eau''"
| "french_of Stone = ''pierre''"
| "french_of House = ''maison''"
| "french_of Grass = ''herbe''"
| "french_of Path = ''chemin''"
| "french_of Flower = ''fleur''"
| "french_of Mushroom = ''champignon''"
| "french_of Log = ''b'' @ CHR 0xC3 # CHR 0xBB # ''che''"
| "french_of Bush = ''buisson''"
| "french_of Rabbit = ''lapin''"
| "french_of Bird = ''oiseau''"

fun passable :: "cell_type \<Rightarrow> bool" where
  "passable Tree = False"
| "passable Water = False"
| "passable Stone = False"
| "passable House = False"
| "passable Grass = True"
| "passable Path = True"
| "passable Flower = True"
| "passable Mushroom = True"
| "passable Log = False"
| "passable Bush = False"
| "passable Rabbit = True"
| "passable Bird = True"

fun color_of :: "cell_type \<Rightarrow> int \<times> int \<times> int" where
  "color_of Tree = (34, 139, 34)"
| "color_of Water = (30, 144, 255)"
| "color_of Stone = (128, 128, 128)"
| "color_of House = (160, 82, 45)"
| "color_of Grass = (76, 187, 23)"
| "color_of Path = (238, 214, 175)"
| "color_of Flower = (255, 105, 180)"
| "color_of Mushroom = (255, 182, 193)"
| "color_of Log = (205, 133, 63)"
| "color_of Bush = (76, 187, 23)"
| "color_of Rabbit = (230, 230, 250)"
| "color_of Bird = (255, 140, 0)"

text \<open>
  A value stored under a key of a tile dictionary, and the lookup \<^verbatim>\<open>obj_type[key]\<close>:
  \<open>None\<close> is the key the dictionary does not have (Python raises KeyError).
\<close>

datatype attr = AStr string | AColor "int \<times> int \<times> int" | ABool bool

definition tile_item :: "cell_type \<Rightarrow> string \<Rightarrow> attr option" where
  "tile_item t key =
     (if key = ''name'' then Some (AStr (name_of t))
      else if key = ''english'' then Some (AStr (english_of t))
      else if key = ''spanish'' then Some (AStr (spanish_of t))
      else if key = ''french'' then Some (AStr (french_of t))
      else if key = ''color'' then Some (AColor (color_of t))
      else if key = ''passable'' then Some (ABool (passable t))
      else None)"

text \<open>The exceptions of Python that the modelled code can raise.\<close>

datatype py_error = IndexError | KeyError | AttributeError | TypeError

section \<open>The progress ledger: Player.learn\_word\<close>

record entry =
  e_word :: attr
  e_english :: string
  e_views :: int
  e_mastered :: bool

type_synonym ledger = "string \<rightharpoonup> (string \<rightharpoonup> entry)"

text \<open>
  \<^verbatim>\<open>words_learned\<close> is a \<^verbatim>\<open>defaultdict(dict)\<close>: reading a language that is not a
  key stores an empty dictionary under it and returns that.
\<close>

definition dd_get :: "ledger \<Rightarrow> string \<Rightarrow> (string \<rightharpoonup> entry) \<times> ledger" where
  "dd_get wl language =
     (case wl language of
        None \<Rightarrow> (Map.empty, wl(language \<mapsto> Map.empty))
      | Some d \<Rightarrow> (d, wl))"

section \<open>Game objects\<close>

record game_object =
  o_x :: int
  o_y :: int
  o_width :: int
  o_height :: int
  o_obj_type :: cell_type
  o_revealed :: bool
  o_translation_shown :: bool
  o_mastered :: bool
  o_variation :: rat

text \<open>
  A game object is referred to by the key of its chunk and its index in the chunk's
  object list, which stands for the Python reference to it.
\<close>

type_synonym obj_ref = "(int \<times> int) \<times> nat"

definition get_tile_position :: "game_object \<Rightarrow> int \<times> int" where
  "get_tile_position obj = (o_x obj div TILE_SIZE, o_y obj div TILE_SIZE)"

definition toggle_translation :: "game_object \<Rightarrow> game_object" where
  "toggle_translation obj = obj\<lparr>o_translation_shown := \<not> o_translation_shown obj\<rparr>"

section \<open>The player\<close>

record player =
  p_x :: int
  p_y :: int
  p_width :: int
  p_height :: int
  p_normal_speed :: int
  p_sprint_speed :: int
  p_speed :: int
  p_score :: int
  p_words_learned :: ledger
  p_direction :: int
  p_tile_x :: int
  p_tile_y :: int
  p_chunk_x :: int
  p_chunk_y :: int
  p_animation_frame :: int
  p_is_moving :: bool
  p_animation_speed :: int
  p_animation_counter :: int
  p_interaction_target :: "obj_ref option"
  p_camera_offset_x :: int
  p_camera_offset_y :: int
  p_interaction_range :: "int option"

text \<open>
  \<^verbatim>\<open>Player.__init__\<close>. The attribute \<^verbatim>\<open>interaction_range\<close> is not set here: the
  source first assigns it in \<^verbatim>\<open>update_interaction_target\<close>, so it starts absent.
\<close>

definition Player :: "int \<Rightarrow> int \<Rightarrow> player" where
  "Player x y =
     \<lparr>p_x = x, p_y = y, p_width = TILE_SIZE, p_height = TILE_SIZE,
      p_normal_speed = 3, p_sprint_speed = 8, p_speed = 3, p_score = 0,
      p_words_learned = Map.empty, p_direction = DIRECTION_DOWN,
      p_tile_x = x div TILE_SIZE, p_tile_y = y div TILE_SIZE,
      p_chunk_x = (x div TILE_SIZE) div CHUNK_SIZE,
      p_chunk_y = (y div TILE_SIZE) div CHUNK_SIZE,
      p_animation_frame = 0, p_is_moving = False, p_animation_speed = 8,
      p_animation_counter = 0, p_interaction_target = None,
      p_camera_offset_x = 0, p_camera_offset_y = 0, p_interaction_range = None\<rparr>"

definition learn_word :: "player \<Rightarrow> cell_type \<Rightarrow> string \<Rightarrow> py_error + (entry \<times> player)" where
  "learn_word p obj_type language =
     (case tile_item obj_type language of
        None \<Rightarrow> Inl KeyError
      | Some word \<Rightarrow>
          let english = english_of obj_type;
              name = name_of obj_type;
              (d, wl) = dd_get (p_words_learned p) language
          in (case d name of
                None \<Rightarrow>
                  let e = \<lparr>e_word = word, e_english = english, e_views = 1, e_mastered = False\<rparr>
                  in Inr (e, p\<lparr>p_words_learned := wl(language \<mapsto> d(name \<mapsto> e)),
                               p_score := p_score p + 10\<rparr>)
              | Some e0 \<Rightarrow>
                  let e1 = e0\<lparr>e_views := e_views e0 + 1\<rparr>
                  in if e_views e1 \<ge> 5 \<and> \<not> e_mastered e1 then
                       let e2 = e1\<lparr>e_mastered := True\<rparr>
                       in Inr (e2, p\<lparr>p_words_learned := wl(language \<mapsto> d(name \<mapsto> e2)),
                                     p_score := p_score p + 50\<rparr>)
                     else if \<not> e_mastered e1 then
                       Inr (e1, p\<lparr>p_words_learned := wl(language \<mapsto> d(name \<mapsto> e1)),
                                   p_score := p_score p + 2\<rparr>)
                     else
                       Inr (e1, p\<lparr>p_words_learned := wl(language \<mapsto> d(name \<mapsto> e1))\<rparr>)))"

text \<open>Calling \<^verbatim>\<open>learn_word\<close> \<open>n\<close> times in a row, stopping at the first exception.\<close>

fun learn_word_times :: "nat \<Rightarrow> player \<Rightarrow> cell_type \<Rightarrow> string \<Rightarrow> py_error + player" where
  "learn_word_times 0 p obj_type language = Inr p"
| "learn_word_times (Suc n) p obj_type language =
     (case learn_word p obj_type language of
        Inl err \<Rightarrow> Inl err
      | Inr (e, p') \<Rightarrow> learn_word_times n p' obj_type language)"

text \<open>The entry the ledger holds for a language and a type name, if any.\<close>

definition ledger_entry :: "ledger \<Rightarrow> string \<Rightarrow> string \<Rightarrow> entry option" where
  "ledger_entry wl language name =
     (case wl language of None \<Rightarrow> None | Some d \<Rightarrow> d name)"

section \<open>The random module\<close>

text \<open>
  Python's \<^verbatim>\<open>random\<close> module is taken as a parameter: a generator over a state type
  \<open>'s\<close>. \<open>seed_str\<close> is \<^verbatim>\<open>random.seed(s)\<close> for a string \<open>s\<close>, which fixes the
  state from the string alone; \<open>next_random\<close> is \<^verbatim>\<open>random.random()\<close>, a double
  in \<open>[0, 1)\<close> given by its exact rational value; \<open>next_below n\<close> is the draw
  below \<open>n\<close> that \<^verbatim>\<open>randint\<close> and \<^verbatim>\<open>choice\<close> are built on. The state that
  \<^verbatim>\<open>random.seed()\<close> without argument installs comes from the operating system; the
  functions that reach it take it as the argument \<open>os\<close>.
\<close>

record 's prng =
  seed_str :: "string \<Rightarrow> 's"
  next_random :: "'s \<Rightarrow> rat \<times> 's"
  next_below :: "nat \<Rightarrow> 's \<Rightarrow> nat \<times> 's"

text \<open>
  \<^verbatim>\<open>random.randint(a, b)\<close> is \<open>a\<close> plus a draw below \<open>b - a + 1\<close>, and
  \<^verbatim>\<open>random.choice(xs)\<close> is the element at a draw below \<open>len(xs)\<close>. The draw is
  reduced modulo its bound, which changes nothing for a generator that keeps the bound and
  makes the library's contract (\<open>a \<le> randint(a, b) \<le> b\<close>) hold for every parameter.
  All calls in the source have constant bounds with \<open>a \<le> b\<close> and a non-empty list.
\<close>

definition randint :: "'s prng \<Rightarrow> int \<Rightarrow> int \<Rightarrow> 's \<Rightarrow> int \<times> 's" where
  "randint P a b s =
     (let n = nat (b - a + 1); (k, s') = next_below P n s in (a + int (k mod n), s'))"

definition choice :: "'s prng \<Rightarrow> 'a list \<Rightarrow> 's \<Rightarrow> 'a \<times> 's" where
  "choice P xs s =
     (let (k, s') = next_below P (length xs) s in (xs ! (k mod length xs), s'))"

text \<open>
  \<^verbatim>\<open>random.seed(a)\<close> for a string \<open>a\<close> on the global generator in state \<open>s\<close>: the new
  state is fixed by the string, and the old state is discarded.
\<close>

definition seed :: "'s prng \<Rightarrow> string \<Rightarrow> 's \<Rightarrow> 's" where
  "seed P a s = seed_str P a"

text \<open>
  The float literals that \<^verbatim>\<open>random.random()\<close> is compared with, as the exact values
  of the doubles Python reads them as.
\<close>

definition f0_7 :: rat where "f0_7 = 3152519739159347 / 4503599627370496"
definition f0_4 :: rat where "f0_4 = 3602879701896397 / 9007199254740992"
definition f0_2 :: rat where "f0_2 = 3602879701896397 / 18014398509481984"
definition f0_6 :: rat where "f0_6 = 5404319552844595 / 9007199254740992"
definition f0_5 :: rat where "f0_5 = 1 / 2"

text \<open>\<^verbatim>\<open>str(n)\<close> for an integer, as the f-string of the seed formats it.\<close>

definition digit_char :: "nat \<Rightarrow> char" where
  "digit_char d = char_of (48 + d)"

function str_nat :: "nat \<Rightarrow> string" where
  "str_nat n = (if n < 10 then [digit_char n] else str_nat (n div 10) @ [digit_char (n mod 10)])"
  by pat_completeness auto
termination
  by (relation "measure id") auto

definition str_int :: "int \<Rightarrow> string" where
  "str_int i = (if i < 0 then CHR ''-'' # str_nat (nat (- i)) else str_nat (nat i))"

section \<open>Grids and loops\<close>

text \<open>
  A grid is the list of rows \<^verbatim>\<open>self.tiles\<close>, read as \<^verbatim>\<open>self.tiles[y][x]\<close>.
  Python's list indexing counts a negative index from the end and raises IndexError
  outside \<open>[-len, len)\<close>. In the generation and world functions \<open>None\<close> stands for
  that uncaught IndexError, the only exception they can raise.
\<close>

type_synonym grid = "cell_type list list"

definition py_index :: "'a list \<Rightarrow> int \<Rightarrow> 'a option" where
  "py_index xs i =
     (let n = int (length xs); j = (if i < 0 then n + i else i)
      in if 0 \<le> j \<and> j < n then Some (xs ! nat j) else None)"

definition py_store :: "'a list \<Rightarrow> int \<Rightarrow> 'a \<Rightarrow> 'a list option" where
  "py_store xs i v =
     (let n = int (length xs); j = (if i < 0 then n + i else i)
      in if 0 \<le> j \<and> j < n then Some (xs[nat j := v]) else None)"

definition tile_read :: "grid \<Rightarrow> int \<Rightarrow> int \<Rightarrow> cell_type option" where
  "tile_read tiles y x = do { row \<leftarrow> py_index tiles y; py_index row x }"

definition tile_write :: "grid \<Rightarrow> int \<Rightarrow> int \<Rightarrow> cell_type \<Rightarrow> grid option" where
  "tile_write tiles y x v =
     do { row \<leftarrow> py_index tiles y; row' \<leftarrow> py_store row x v; py_store tiles y row' }"

definition py_range :: "int \<Rightarrow> int \<Rightarrow> int list" where
  "py_range a b = [a..b - 1]"

text \<open>
  A \<^verbatim>\<open>for\<close> loop over a list with a body that may raise, and one whose body may
  \<^verbatim>\<open>break\<close>: the body returns the state and whether it broke out.
\<close>

fun for_each :: "'a list \<Rightarrow> ('a \<Rightarrow> 'b \<Rightarrow> 'b option) \<Rightarrow> 'b \<Rightarrow> 'b option" where
  "for_each [] body s = Some s"
| "for_each (x # xs) body s =
     (case body x s of None \<Rightarrow> None | Some s' \<Rightarrow> for_each xs body s')"

fun for_break :: "'a list \<Rightarrow> ('a \<Rightarrow> 'b \<Rightarrow> ('b \<times> bool) option) \<Rightarrow> 'b \<Rightarrow> 'b option" where
  "for_break [] body s = Some s"
| "for_break (x # xs) body s =
     (case body x s of
        None \<Rightarrow> None
      | Some (s', broke) \<Rightarrow> if broke then Some s' else for_break xs body s')"

text \<open>
  The cells \<^verbatim>\<open>(ny, nx)\<close> that the two nested loops over
  \<^verbatim>\<open>range(max(0, y - 1), min(CHUNK_SIZE, y + 2))\<close> and the same in \<open>x\<close> visit, in
  their order, and the search through them for a tile of a given name: the inner
  \<^verbatim>\<open>break\<close> and the outer one behind the flag stop it at the first match.
\<close>

definition neighbourhood :: "int \<Rightarrow> int \<Rightarrow> (int \<times> int) list" where
  "neighbourhood y x =
     concat (map (\<lambda>ny. map (\<lambda>nx. (ny, nx)) (py_range (max 0 (x - 1)) (min CHUNK_SIZE (x + 2))))
                 (py_range (max 0 (y - 1)) (min CHUNK_SIZE (y + 2))))"

fun name_nearby :: "grid \<Rightarrow> string \<Rightarrow> (int \<times> int) list \<Rightarrow> bool option" where
  "name_nearby tiles nm [] = Some False"
| "name_nearby tiles nm ((ny, nx) # cs) =
     (case tile_read tiles ny nx of
        None \<Rightarrow> None
      | Some t \<Rightarrow> if name_of t = nm then Some True else name_nearby tiles nm cs)"

section \<open>Chunk generation\<close>

text \<open>
  The feature routines of \<^verbatim>\<open>Chunk\<close> mutate \<^verbatim>\<open>self.tiles\<close> and the global
  generator; here each takes and returns the pair of grid and generator state. The loop
  bodies are named so that each can be read against the source lines it stands for.
\<close>

definition generate_path :: "'s prng \<Rightarrow> grid \<times> 's \<Rightarrow> (grid \<times> 's) option" where
  "generate_path P = (\<lambda>(tiles, s).
     let (path_type, s) = choice P [''horizontal'', ''vertical'', ''both''] s in
     do {
       (tiles, s) \<leftarrow>
         (if path_type \<in> set [''horizontal'', ''both''] then
            (let (y, s) = randint P (CHUNK_SIZE div 4) (3 * CHUNK_SIZE div 4) s in
             do {
               tiles \<leftarrow> for_each (py_range 0 CHUNK_SIZE) (\<lambda>x tiles. tile_write tiles y x Path) tiles;
               Some (tiles, s)
             })
          else Some (tiles, s));
       (if path_type \<in> set [''vertical'', ''both''] then
          (let (x, s) = randint P (CHUNK_SIZE div 4) (3 * CHUNK_SIZE div 4) s in
           do {
             tiles \<leftarrow> for_each (py_range 0 CHUNK_SIZE) (\<lambda>y tiles. tile_write tiles y x Path) tiles;
             Some (tiles, s)
           })
        else Some (tiles, s))
     })"

text \<open>One cell of a tree cluster (the body of the inner loop of \<^verbatim>\<open>generate_trees\<close>).\<close>

definition tree_cell :: "'s prng \<Rightarrow> int \<Rightarrow> int \<Rightarrow> int \<Rightarrow> int \<Rightarrow> int \<Rightarrow> grid \<times> 's \<Rightarrow> (grid \<times> 's) option" where
  "tree_cell P center_x center_y radius y x = (\<lambda>(tiles, s).
     do {
       t \<leftarrow> tile_read tiles y x;
       (if name_of t \<noteq> ''grass'' then Some (tiles, s)
        else
          (let (u, s) = next_random P s in
           if u < f0_6 \<and> (x - center_x)\<^sup>2 + (y - center_y)\<^sup>2 \<le> radius\<^sup>2 then
             do { tiles \<leftarrow> tile_write tiles y x Tree; Some (tiles, s) }
           else Some (tiles, s)))
     })"

definition tree_cluster :: "'s prng \<Rightarrow> grid \<times> 's \<Rightarrow> (grid \<times> 's) option" where
  "tree_cluster P = (\<lambda>(tiles, s).
     let (center_x, s) = randint P 2 (CHUNK_SIZE - 3) s;
         (center_y, s) = randint P 2 (CHUNK_SIZE - 3) s;
         (radius, s) = randint P 2 4 s
     in for_each (py_range (max 0 (center_y - radius)) (min CHUNK_SIZE (center_y + radius)))
          (\<lambda>y. for_each (py_range (max 0 (center_x - radius)) (min CHUNK_SIZE (center_x + radius)))
                  (\<lambda>x. tree_cell P center_x center_y radius y x))
          (tiles, s))"

definition generate_trees :: "'s prng \<Rightarrow> grid \<times> 's \<Rightarrow> (grid \<times> 's) option" where
  "generate_trees P = (\<lambda>(tiles, s).
     let (n, s) = randint P 1 3 s
     in for_each (py_range 0 n) (\<lambda>_. tree_cluster P) (tiles, s))"

definition water_cell :: "'s prng \<Rightarrow> int \<Rightarrow> int \<Rightarrow> int \<Rightarrow> int \<Rightarrow> int \<Rightarrow> grid \<times> 's \<Rightarrow> (grid \<times> 's) option" where
  "water_cell P center_x center_y radius y x = (\<lambda>(tiles, s).
     let (u, s) = next_random P s in
     if u < f0_7 \<and> (x - center_x)\<^sup>2 + (y - center_y)\<^sup>2 \<le> radius\<^sup>2 then
       do { tiles \<leftarrow> tile_write tiles y x Water; Some (tiles, s) }
     else Some (tiles, s))"

definition generate_water :: "'s prng \<Rightarrow> grid \<times> 's \<Rightarrow> (grid \<times> 's) option" where
  "generate_water P = (\<lambda>(tiles, s).
     let (center_x, s) = randint P 3 (CHUNK_SIZE - 4) s;
         (center_y, s) = randint P 3 (CHUNK_SIZE - 4) s;
         (radius, s) = randint P 2 5 s
     in for_each (py_range (max 0 (center_y - radius)) (min CHUNK_SIZE (center_y + radius)))
          (\<lambda>y. for_each (py_range (max 0 (center_x - radius)) (min CHUNK_SIZE (center_x + radius)))
                  (\<lambda>x. water_cell P center_x center_y radius y x))
          (tiles, s))"

text \<open>One neighbour of a new house (the body of the flower loop).\<close>

definition flower_cell :: "'s prng \<Rightarrow> int \<Rightarrow> int \<Rightarrow> int \<times> int \<Rightarrow> grid \<times> 's \<Rightarrow> (grid \<times> 's) option" where
  "flower_cell P y x = (\<lambda>(ny, nx) (tiles, s).
     if nx \<noteq> x \<or> ny \<noteq> y then
       do {
         t \<leftarrow> tile_read tiles ny nx;
         (if name_of t = ''grass'' then
            (let (u, s) = next_random P s in
             if u < f0_4 then do { tiles \<leftarrow> tile_write tiles ny nx Flower; Some (tiles, s) }
             else Some (tiles, s))
          else Some (tiles, s))
       }
     else Some (tiles, s))"

text \<open>One attempt to place a house; the flag says whether the attempt loop is left.\<close>

definition house_attempt :: "'s prng \<Rightarrow> int \<Rightarrow> grid \<times> 's \<Rightarrow> ((grid \<times> 's) \<times> bool) option" where
  "house_attempt P attempt = (\<lambda>(tiles, s).
     let (x, s) = randint P 1 (CHUNK_SIZE - 2) s;
         (y, s) = randint P 1 (CHUNK_SIZE - 2) s
     in do {
       has_path_nearby \<leftarrow> name_nearby tiles ''path'' (neighbourhood y x);
       good \<leftarrow>
         (if has_path_nearby \<or> attempt > 5 then
            do { t \<leftarrow> tile_read tiles y x; Some (name_of t \<notin> set [''water'', ''path'', ''house'']) }
          else Some False);
       (if good then
          do {
            tiles \<leftarrow> tile_write tiles y x House;
            st \<leftarrow> for_each (neighbourhood y x) (flower_cell P y x) (tiles, s);
            Some (st, True)
          }
        else Some ((tiles, s), False))
     })"

definition generate_houses :: "'s prng \<Rightarrow> grid \<times> 's \<Rightarrow> (grid \<times> 's) option" where
  "generate_houses P = (\<lambda>(tiles, s).
     let (n, s) = randint P 0 3 s
     in for_each (py_range 0 n) (\<lambda>_. for_break (py_range 0 10) (house_attempt P)) (tiles, s))"

definition log_attempt :: "'s prng \<Rightarrow> int \<Rightarrow> grid \<times> 's \<Rightarrow> ((grid \<times> 's) \<times> bool) option" where
  "log_attempt P attempt = (\<lambda>(tiles, s).
     let (x, s) = randint P 0 (CHUNK_SIZE - 1) s;
         (y, s) = randint P 0 (CHUNK_SIZE - 1) s
     in do {
       tree_nearby \<leftarrow> name_nearby tiles ''tree'' (neighbourhood y x);
       good \<leftarrow>
         (if tree_nearby \<or> attempt > 3 then
            do { t \<leftarrow> tile_read tiles y x; Some (name_of t = ''grass'') }
          else Some False);
       (if good then
          do { tiles \<leftarrow> tile_write tiles y x Log; Some ((tiles, s), True) }
        else Some ((tiles, s), False))
     })"

text \<open>
  One attempt to put an object on a grass cell, as the bush loop and the rabbit loop make
  it: both have the same body up to the object placed.
\<close>

definition grass_attempt :: "'s prng \<Rightarrow> cell_type \<Rightarrow> int \<Rightarrow> grid \<times> 's \<Rightarrow> ((grid \<times> 's) \<times> bool) option" where
  "grass_attempt P obj attempt = (\<lambda>(tiles, s).
     let (x, s) = randint P 0 (CHUNK_SIZE - 1) s;
         (y, s) = randint P 0 (CHUNK_SIZE - 1) s
     in do {
       t \<leftarrow> tile_read tiles y x;
       (if name_of t = ''grass'' then
          do { tiles \<leftarrow> tile_write tiles y x obj; Some ((tiles, s), True) }
        else Some ((tiles, s), False))
     })"

definition generate_forest_elements :: "'s prng \<Rightarrow> grid \<times> 's \<Rightarrow> (grid \<times> 's) option" where
  "generate_forest_elements P = (\<lambda>(tiles, s).
     let (num_logs, s) = randint P 0 3 s in
     do {
       (tiles, s) \<leftarrow> for_each (py_range 0 num_logs)
                       (\<lambda>_. for_break (py_range 0 5) (log_attempt P)) (tiles, s);
       (let (num_bushes, s) = randint P 1 5 s
        in for_each (py_range 0 num_bushes)
             (\<lambda>_. for_break (py_range 0 5) (grass_attempt P Bush)) (tiles, s))
     })"

definition bird_attempt :: "'s prng \<Rightarrow> bool \<Rightarrow> int \<Rightarrow> grid \<times> 's \<Rightarrow> ((grid \<times> 's) \<times> bool) option" where
  "bird_attempt P bird_in_tree attempt = (\<lambda>(tiles, s).
     let (x, s) = randint P 0 (CHUNK_SIZE - 1) s;
         (y, s) = randint P 0 (CHUNK_SIZE - 1) s
     in do {
       t \<leftarrow> tile_read tiles y x;
       (if bird_in_tree \<and> name_of t = ''tree'' then
          do { tiles \<leftarrow> tile_write tiles y x Bird; Some ((tiles, s), True) }
        else if \<not> bird_in_tree \<and> name_of t = ''grass'' then
          do { tiles \<leftarrow> tile_write tiles y x Bird; Some ((tiles, s), True) }
        else Some ((tiles, s), False))
     })"

definition place_bird :: "'s prng \<Rightarrow> grid \<times> 's \<Rightarrow> (grid \<times> 's) option" where
  "place_bird P = (\<lambda>(tiles, s).
     let (u, s) = next_random P s;
         bird_in_tree = (u < f0_5)
     in for_break (py_range 0 5) (bird_attempt P bird_in_tree) (tiles, s))"

definition generate_animals :: "'s prng \<Rightarrow> grid \<times> 's \<Rightarrow> (grid \<times> 's) option" where
  "generate_animals P = (\<lambda>(tiles, s).
     let (num_rabbits, s) = randint P 0 2 s in
     do {
       (tiles, s) \<leftarrow> for_each (py_range 0 num_rabbits)
                       (\<lambda>_. for_break (py_range 0 5) (grass_attempt P Rabbit)) (tiles, s);
       (let (num_birds, s) = randint P 0 2 s
        in for_each (py_range 0 num_birds) (\<lambda>_. place_bird P) (tiles, s))
     })"

text \<open>
  \<^verbatim>\<open>generate_features\<close>: each feature behind its test, in the source's order. A test
  \<^verbatim>\<open>random.random() < c\<close> draws from the generator whether or not it succeeds; the
  house test draws only when the chunk is not within three chunks of the origin.
\<close>

definition maybe :: "'s prng \<Rightarrow> rat \<Rightarrow> (grid \<times> 's \<Rightarrow> (grid \<times> 's) option) \<Rightarrow> grid \<times> 's \<Rightarrow> (grid \<times> 's) option" where
  "maybe P c feature = (\<lambda>(tiles, s).
     let (u, s) = next_random P s in
     if u < c then feature (tiles, s) else Some (tiles, s))"

definition generate_features :: "'s prng \<Rightarrow> int \<Rightarrow> int \<Rightarrow> grid \<times> 's \<Rightarrow> (grid \<times> 's) option" where
  "generate_features P chunk_x chunk_y st =
     do {
       st \<leftarrow> (if \<bar>chunk_x\<bar> \<le> 2 \<or> \<bar>chunk_y\<bar> \<le> 2 then generate_path P st else Some st);
       st \<leftarrow> maybe P f0_7 (generate_trees P) st;
       st \<leftarrow> maybe P f0_4 (generate_water P) st;
       st \<leftarrow> (if \<bar>chunk_x\<bar> \<le> 3 \<and> \<bar>chunk_y\<bar> \<le> 3 then generate_houses P st
              else maybe P f0_2 (generate_houses P) st);
       st \<leftarrow> maybe P f0_6 (generate_forest_elements P) st;
       maybe P f0_4 (generate_animals P) st
     }"

text \<open>
  \<^verbatim>\<open>generate_tiles\<close>, called with the global generator in state \<open>s0\<close>: a grid of
  grass, the generator seeded with the string \<^verbatim>\<open>f"{chunk_x}-{chunk_y}"\<close>, the features,
  and the generator reseeded from the operating system (to the state \<open>os\<close>).
\<close>

definition grass_grid :: grid where
  "grass_grid = replicate (nat CHUNK_SIZE) (replicate (nat CHUNK_SIZE) Grass)"

definition chunk_seed :: "int \<Rightarrow> int \<Rightarrow> string" where
  "chunk_seed chunk_x chunk_y = str_int chunk_x @ ''-'' @ str_int chunk_y"

definition generate_tiles :: "'s prng \<Rightarrow> int \<Rightarrow> int \<Rightarrow> 's \<Rightarrow> 's \<Rightarrow> (grid \<times> 's) option" where
  "generate_tiles P chunk_x chunk_y s0 os =
     (let tiles = grass_grid;
          s = seed P (chunk_seed chunk_x chunk_y) s0
      in do {
        (tiles, s) \<leftarrow> generate_features P chunk_x chunk_y (tiles, s);
        Some (tiles, os)
      })"

record chunk =
  c_chunk_x :: int
  c_chunk_y :: int
  c_tiles :: grid
  c_objects :: "game_object list"

text \<open>\<^verbatim>\<open>Chunk.__init__\<close>, with the generator state it leaves behind.\<close>

definition Chunk :: "'s prng \<Rightarrow> int \<Rightarrow> int \<Rightarrow> 's \<Rightarrow> 's \<Rightarrow> (chunk \<times> 's) option" where
  "Chunk P chunk_x chunk_y s0 os =
     do {
       (tiles, s) \<leftarrow> generate_tiles P chunk_x chunk_y s0 os;
       Some (\<lparr>c_chunk_x = chunk_x, c_chunk_y = chunk_y, c_tiles = tiles, c_objects = []\<rparr>, s)
     }"

text \<open>\<^verbatim>\<open>Chunk.get_tile\<close>: the inner \<open>None\<close> is Python's \<^verbatim>\<open>None\<close>.\<close>

definition chunk_get_tile :: "chunk \<Rightarrow> int \<Rightarrow> int \<Rightarrow> cell_type option option" where
  "chunk_get_tile c local_x local_y =
     (if 0 \<le> local_x \<and> local_x < CHUNK_SIZE \<and> 0 \<le> local_y \<and> local_y < CHUNK_SIZE then
        do { t \<leftarrow> tile_read (c_tiles c) local_y local_x; Some (Some t) }
      else Some None)"

definition get_world_position :: "chunk \<Rightarrow> int \<Rightarrow> int \<Rightarrow> int \<times> int" where
  "get_world_position c local_x local_y =
     (c_chunk_x c * CHUNK_SIZE + local_x, c_chunk_y c * CHUNK_SIZE + local_y)"

text \<open>
  \<^verbatim>\<open>GameObject.__init__\<close> draws the object's variation from the global generator, and
  \<^verbatim>\<open>create_game_objects\<close> makes one object per cell, row by row.
\<close>

definition GameObject :: "'s prng \<Rightarrow> int \<Rightarrow> int \<Rightarrow> cell_type \<Rightarrow> 's \<Rightarrow> game_object \<times> 's" where
  "GameObject P x y obj_type s =
     (let (u, s) = next_random P s
      in (\<lparr>o_x = x, o_y = y, o_width = TILE_SIZE, o_height = TILE_SIZE, o_obj_type = obj_type,
           o_revealed = False, o_translation_shown = False, o_mastered = False,
           o_variation = u\<rparr>, s))"

definition object_cell :: "'s prng \<Rightarrow> chunk \<Rightarrow> int \<Rightarrow> int \<Rightarrow> game_object list \<times> 's \<Rightarrow> (game_object list \<times> 's) option" where
  "object_cell P c y x = (\<lambda>(objects, s).
     let (world_x, world_y) = get_world_position c x y in
     do {
       t \<leftarrow> tile_read (c_tiles c) y x;
       (let (obj, s) = GameObject P (world_x * TILE_SIZE) (world_y * TILE_SIZE) t s
        in Some (objects @ [obj], s))
     })"

definition create_game_objects :: "'s prng \<Rightarrow> chunk \<Rightarrow> 's \<Rightarrow> (chunk \<times> 's) option" where
  "create_game_objects P c s =
     do {
       (objects, s) \<leftarrow> for_each (py_range 0 CHUNK_SIZE)
                         (\<lambda>y. for_each (py_range 0 CHUNK_SIZE) (\<lambda>x. object_cell P c y x)) ([], s);
       Some (c\<lparr>c_objects := objects\<rparr>, s)
     }"

section \<open>The world\<close>

text \<open>
  \<open>w_rng\<close> is the state of the module-level generator, which the source keeps in the
  \<^verbatim>\<open>random\<close> module and not in the World.
\<close>

record 's world =
  w_chunks :: "(int \<times> int) \<rightharpoonup> chunk"
  w_active_chunks :: "(int \<times> int) set"
  w_render_distance :: int
  w_last_player_chunk :: "(int \<times> int) option"
  w_rng :: 's

definition World :: "'s \<Rightarrow> 's world" where
  "World s = \<lparr>w_chunks = Map.empty, w_active_chunks = {}, w_render_distance = 2,
              w_last_player_chunk = None, w_rng = s\<rparr>"

definition get_chunk :: "'s prng \<Rightarrow> 's world \<Rightarrow> int \<Rightarrow> int \<Rightarrow> 's \<Rightarrow> (chunk \<times> 's world) option" where
  "get_chunk P w chunk_x chunk_y os =
     (let chunk_key = (chunk_x, chunk_y)
      in case w_chunks w chunk_key of
           None \<Rightarrow>
             do {
               (c, s) \<leftarrow> Chunk P chunk_x chunk_y (w_rng w) os;
               Some (c, w\<lparr>w_chunks := (w_chunks w)(chunk_key \<mapsto> c), w_rng := s\<rparr>)
             }
         | Some c \<Rightarrow> Some (c, w))"

definition get_tile :: "'s prng \<Rightarrow> 's world \<Rightarrow> int \<Rightarrow> int \<Rightarrow> 's \<Rightarrow> (cell_type option \<times> 's world) option" where
  "get_tile P w tile_x tile_y os =
     (let chunk_x = tile_x div CHUNK_SIZE;
          chunk_y = tile_y div CHUNK_SIZE;
          local_x = tile_x mod CHUNK_SIZE;
          local_y = tile_y mod CHUNK_SIZE
      in do {
        (c, w) \<leftarrow> get_chunk P w chunk_x chunk_y os;
        tile \<leftarrow> chunk_get_tile c local_x local_y;
        Some (tile, w)
      })"

text \<open>
  \<^verbatim>\<open>is_tile_passable\<close>: a tile dictionary is never empty, so \<^verbatim>\<open>if tile:\<close> tests for
  \<^verbatim>\<open>None\<close>, and every dictionary has the key \<^verbatim>\<open>"passable"\<close>.
\<close>

definition is_tile_passable :: "'s prng \<Rightarrow> 's world \<Rightarrow> int \<Rightarrow> int \<Rightarrow> 's \<Rightarrow> (bool \<times> 's world) option" where
  "is_tile_passable P w tile_x tile_y os =
     do {
       (tile, w) \<leftarrow> get_tile P w tile_x tile_y os;
       Some (case tile of Some t \<Rightarrow> passable t | None \<Rightarrow> False, w)
     }"

text \<open>
  The loop of \<^verbatim>\<open>get_object_at_tile\<close> over \<^verbatim>\<open>chunk.objects\<close>, counting the index of
  the object it returns.
\<close>

fun scan_objects :: "game_object list \<Rightarrow> int \<Rightarrow> int \<Rightarrow> nat \<Rightarrow> nat option" where
  "scan_objects [] tile_x tile_y i = None"
| "scan_objects (obj # objs) tile_x tile_y i =
     (let (obj_x, obj_y) = get_tile_position obj
      in if obj_x = tile_x \<and> obj_y = tile_y then Some i
         else scan_objects objs tile_x tile_y (Suc i))"

definition get_object_at_tile :: "'s world \<Rightarrow> int \<Rightarrow> int \<Rightarrow> obj_ref option" where
  "get_object_at_tile w tile_x tile_y =
     (let chunk_x = tile_x div CHUNK_SIZE;
          chunk_y = tile_y div CHUNK_SIZE;
          chunk_key = (chunk_x, chunk_y)
      in case w_chunks w chunk_key of
           Some c \<Rightarrow>
             (case scan_objects (c_objects c) tile_x tile_y 0 of
                Some i \<Rightarrow> Some (chunk_key, i)
              | None \<Rightarrow> None)
         | None \<Rightarrow> None)"

text \<open>Reading and updating the object behind a reference.\<close>

definition deref :: "'s world \<Rightarrow> obj_ref \<Rightarrow> game_object option" where
  "deref w r =
     (case w_chunks w (fst r) of
        None \<Rightarrow> None
      | Some c \<Rightarrow> if snd r < length (c_objects c) then Some (c_objects c ! snd r) else None)"

definition update_object :: "'s world \<Rightarrow> obj_ref \<Rightarrow> (game_object \<Rightarrow> game_object) \<Rightarrow> 's world" where
  "update_object w r f =
     (case w_chunks w (fst r) of
        None \<Rightarrow> w
      | Some c \<Rightarrow>
          if snd r < length (c_objects c) then
            w\<lparr>w_chunks := (w_chunks w)(fst r \<mapsto> c\<lparr>c_objects := (c_objects c)[snd r := f (c_objects c ! snd r)]\<rparr>)\<rparr>
          else w)"

text \<open>
  Dropping a chunk from the cache. The source never does this; it is the synthetic
  eviction that the determinism property speaks of.
\<close>

definition evict :: "'s world \<Rightarrow> int \<times> int \<Rightarrow> 's world" where
  "evict w chunk_key = w\<lparr>w_chunks := (w_chunks w)(chunk_key := None)\<rparr>"

section \<open>Movement and facing\<close>

text \<open>
  \<^verbatim>\<open>get_facing_tile_position\<close> reads the pointer from \<^verbatim>\<open>pygame.mouse.get_pos()\<close>; the
  pointer position is the argument \<open>mouse\<close>. It returns the tile under the pointer and
  sets the player's direction from the pointer's offset to the player's centre.
\<close>

definition get_facing_tile_position :: "player \<Rightarrow> int \<times> int \<Rightarrow> (int \<times> int) \<times> player" where
  "get_facing_tile_position p mouse =
     (let (mouse_x, mouse_y) = mouse;
          world_mouse_x = mouse_x + p_camera_offset_x p;
          world_mouse_y = mouse_y + p_camera_offset_y p;
          dx = world_mouse_x - (p_x p + p_width p div 2);
          dy = world_mouse_y - (p_y p + p_height p div 2);
          p = (if \<bar>dx\<bar> > \<bar>dy\<bar> then
                 (if dx > 0 then p\<lparr>p_direction := DIRECTION_RIGHT\<rparr>
                  else p\<lparr>p_direction := DIRECTION_LEFT\<rparr>)
               else
                 (if dy > 0 then p\<lparr>p_direction := DIRECTION_DOWN\<rparr>
                  else p\<lparr>p_direction := DIRECTION_UP\<rparr>));
          tile_x = world_mouse_x div TILE_SIZE;
          tile_y = world_mouse_y div TILE_SIZE
      in ((tile_x, tile_y), p))"

definition update_interaction_target :: "player \<Rightarrow> 's world \<Rightarrow> int \<times> int \<Rightarrow> player" where
  "update_interaction_target p w mouse =
     (let ((facing_x, facing_y), p) = get_facing_tile_position p mouse
      in p\<lparr>p_interaction_target := get_object_at_tile w facing_x facing_y,
            p_interaction_range := Some 150\<rparr>)"

text \<open>
  The direction block of \<^verbatim>\<open>Player.move\<close> (the \<^verbatim>\<open>if dx > 0 ... elif dy < 0\<close> chain),
  named so that the facing it sets can be stated apart from the rest of the call.
\<close>

definition move_direction :: "player \<Rightarrow> int \<Rightarrow> int \<Rightarrow> player" where
  "move_direction p dx dy =
     (if dx > 0 then p\<lparr>p_direction := DIRECTION_RIGHT\<rparr>
      else if dx < 0 then p\<lparr>p_direction := DIRECTION_LEFT\<rparr>
      else if dy > 0 then p\<lparr>p_direction := DIRECTION_DOWN\<rparr>
      else if dy < 0 then p\<lparr>p_direction := DIRECTION_UP\<rparr>
      else p)"

definition move_animation :: "player \<Rightarrow> int \<Rightarrow> int \<Rightarrow> player" where
  "move_animation p dx dy =
     (let p = p\<lparr>p_is_moving := (dx \<noteq> 0 \<or> dy \<noteq> 0)\<rparr>
      in if p_is_moving p then
           (let p = p\<lparr>p_animation_counter := p_animation_counter p + 1\<rparr>
            in if p_animation_counter p \<ge> p_animation_speed p then
                 p\<lparr>p_animation_counter := 0,
                   p_animation_frame := (p_animation_frame p + 1) mod 4\<rparr>
               else p)
         else p\<lparr>p_animation_frame := 0, p_animation_counter := 0\<rparr>)"

text \<open>
  \<^verbatim>\<open>Player.move\<close>. The passability test may create the chunk of the destination tile, so
  the world is returned with the player; \<open>os\<close> is the operating system's seed for that
  creation and \<open>mouse\<close> the pointer that the closing \<^verbatim>\<open>update_interaction_target\<close> reads.
\<close>

definition move :: "'s prng \<Rightarrow> player \<Rightarrow> int \<Rightarrow> int \<Rightarrow> 's world \<Rightarrow> bool \<Rightarrow> int \<times> int \<Rightarrow> 's \<Rightarrow> (player \<times> 's world) option" where
  "move P p dx dy w is_sprinting mouse os =
     (let p = (if is_sprinting then p\<lparr>p_speed := p_sprint_speed p\<rparr>
               else p\<lparr>p_speed := p_normal_speed p\<rparr>);
          p = move_animation p dx dy;
          p = move_direction p dx dy;
          new_x = p_x p + dx;
          new_y = p_y p + dy;
          new_tile_x = new_x div TILE_SIZE;
          new_tile_y = new_y div TILE_SIZE
      in do {
        (ok, w) \<leftarrow> is_tile_passable P w new_tile_x new_tile_y os;
        (let p = (if ok then
                    p\<lparr>p_x := new_x, p_y := new_y,
                      p_tile_x := new_tile_x, p_tile_y := new_tile_y,
                      p_chunk_x := new_tile_x div CHUNK_SIZE,
                      p_chunk_y := new_tile_y div CHUNK_SIZE\<rparr>
                  else p)
         in Some (update_interaction_target p w mouse, w))
      })"

section \<open>Drawing and the mastered flag\<close>

text \<open>
  What \<^verbatim>\<open>GameObject.draw\<close> does to the object: nothing when the object is off screen (the
  early return), and otherwise the test of the ledger that sets \<^verbatim>\<open>self.mastered\<close>. The
  local \<^verbatim>\<open>is_mastered\<close>, which picks the label's background, is \<open>draw_is_mastered\<close>.
  \<open>screen_w\<close> and \<open>screen_h\<close> are the display's size, which the source reads from pygame.
\<close>

definition draw_is_mastered :: "string \<Rightarrow> ledger \<Rightarrow> string \<Rightarrow> bool" where
  "draw_is_mastered target_language words_learned name =
     (case words_learned target_language of
        None \<Rightarrow> False
      | Some d \<Rightarrow> (case d name of None \<Rightarrow> False | Some e \<Rightarrow> e_mastered e))"

definition draw :: "game_object \<Rightarrow> int \<Rightarrow> int \<Rightarrow> string \<Rightarrow> ledger \<Rightarrow> int \<Rightarrow> int \<Rightarrow> game_object" where
  "draw obj offset_x offset_y target_language words_learned screen_w screen_h =
     (let screen_x = o_x obj - offset_x;
          screen_y = o_y obj - offset_y
      in if screen_x + o_width obj < 0 \<or> screen_x > screen_w \<or>
            screen_y + o_height obj < 0 \<or> screen_y > screen_h then obj
         else
           (let name = name_of (o_obj_type obj)
            in if draw_is_mastered target_language words_learned name then
                 obj\<lparr>o_mastered := True\<rparr>
               else obj))"

section \<open>Interaction\<close>

text \<open>
  The fields of \<^verbatim>\<open>Game\<close> that the interaction handler reads or writes.
  \<^verbatim>\<open>current_word_data\<close> is a reference to an entry of the ledger, given by the
  language and the type name under which the ledger holds it.
\<close>

record 's game =
  g_player :: player
  g_world :: "'s world"
  g_target_language :: string
  g_camera_x :: int
  g_camera_y :: int
  g_show_menu :: bool
  g_show_word_display :: bool
  g_word_display_timer :: int
  g_current_word_data :: "(string \<times> string) option"
  g_word_display_showing_translation :: bool

text \<open>
  \<^verbatim>\<open>math.sqrt\<close> of the squared distance, over the reals. (For the integers of a
  playable position the double that Python computes compares with the range as the real
  number does.)
\<close>

definition click_distance :: "int \<Rightarrow> int \<Rightarrow> int \<Rightarrow> int \<Rightarrow> real" where
  "click_distance world_mouse_x world_mouse_y player_center_x player_center_y =
     sqrt (real_of_int ((world_mouse_x - player_center_x)\<^sup>2 + (world_mouse_y - player_center_y)\<^sup>2))"

text \<open>
  \<^verbatim>\<open>handle_mouse_interaction\<close>, for the object \<open>obj\<close> found under the pointer: a
  revealed object toggles its translation, an unrevealed one is revealed and its word
  learned. Reading \<^verbatim>\<open>words_learned[target_language]\<close> goes through the defaultdict.
\<close>

definition interact_with :: "'s game \<Rightarrow> obj_ref \<Rightarrow> game_object \<Rightarrow> py_error + 's game" where
  "interact_with g r obj =
     (if o_revealed obj then
        (let w = update_object (g_world g) r toggle_translation;
             word_key = name_of (o_obj_type obj);
             (d, wl) = dd_get (p_words_learned (g_player g)) (g_target_language g);
             g = g\<lparr>g_world := w, g_player := (g_player g)\<lparr>p_words_learned := wl\<rparr>\<rparr>
         in if d word_key \<noteq> None then
              Inr (g\<lparr>g_current_word_data := Some (g_target_language g, word_key),
                     g_show_word_display := True,
                     g_word_display_timer := 180,
                     g_word_display_showing_translation := (\<not> o_translation_shown obj)\<rparr>)
            else Inr g)
      else
        (let w = update_object (g_world g) r (\<lambda>obj. obj\<lparr>o_revealed := True\<rparr>)
         in case learn_word (g_player g) (o_obj_type obj) (g_target_language g) of
              Inl err \<Rightarrow> Inl err
            | Inr (word_data, p) \<Rightarrow>
                Inr (g\<lparr>g_world := w, g_player := p,
                       g_current_word_data := Some (g_target_language g, name_of (o_obj_type obj)),
                       g_show_word_display := True,
                       g_word_display_timer := 432,
                       g_word_display_showing_translation := False\<rparr>)))"

text \<open>
  \<^verbatim>\<open>handle_mouse_interaction\<close>. The pointer position is the argument \<open>mouse\<close>. Reading
  \<^verbatim>\<open>self.player.interaction_range\<close> raises AttributeError while the attribute is absent.
  A reference returned by \<open>get_object_at_tile\<close> always has its object, so the case of a
  reference without one is never taken.
\<close>

definition handle_mouse_interaction :: "'s game \<Rightarrow> int \<times> int \<Rightarrow> py_error + 's game" where
  "handle_mouse_interaction g mouse =
     (let (mouse_x, mouse_y) = mouse;
          world_mouse_x = mouse_x + g_camera_x g;
          world_mouse_y = mouse_y + g_camera_y g;
          player_center_x = p_x (g_player g) + p_width (g_player g) div 2;
          player_center_y = p_y (g_player g) + p_height (g_player g) div 2;
          distance = click_distance world_mouse_x world_mouse_y player_center_x player_center_y
      in case p_interaction_range (g_player g) of
           None \<Rightarrow> Inl AttributeError
         | Some interaction_range \<Rightarrow>
             if distance \<le> real_of_int interaction_range then
               (let tile_x = world_mouse_x div TILE_SIZE;
                    tile_y = world_mouse_y div TILE_SIZE
                in case get_object_at_tile (g_world g) tile_x tile_y of
                     None \<Rightarrow> Inr g
                   | Some r \<Rightarrow>
                       (case deref (g_world g) r of
                          None \<Rightarrow> Inr g
                        | Some obj \<Rightarrow> interact_with g r obj))
             else Inr g)"

section \<open>Loading the saved state\<close>

text \<open>
  The content of \<^verbatim>\<open>save_game.json\<close> as \<^verbatim>\<open>json.load\<close> returns it. A JSON object is
  the list of its keys and values (keys distinct, as in the dictionary Python builds).
  Numbers are integers, as the game writes them. The file is missing, is not JSON, or
  parses to a value.
\<close>

datatype json =
  JNull | JBool bool | JInt int | JString string | JArray "json list"
  | JObject "(string \<times> json) list"

datatype save_file = FileMissing | NotJSON | Parsed json

text \<open>
  \<^verbatim>\<open>d.get(key, default)\<close> and \<^verbatim>\<open>d[key]\<close> on a value that should be a dictionary:
  \<^verbatim>\<open>get\<close> is an attribute of dictionaries only, and subscripting another value with a
  string raises TypeError.
\<close>

definition dict_get :: "json \<Rightarrow> string \<Rightarrow> json \<Rightarrow> py_error + json" where
  "dict_get j key dflt =
     (case j of
        JObject kvs \<Rightarrow> Inr (case map_of kvs key of None \<Rightarrow> dflt | Some v \<Rightarrow> v)
      | _ \<Rightarrow> Inl AttributeError)"

definition dict_item :: "json \<Rightarrow> string \<Rightarrow> py_error + json" where
  "dict_item j key =
     (case j of
        JObject kvs \<Rightarrow> (case map_of kvs key of None \<Rightarrow> Inl KeyError | Some v \<Rightarrow> Inr v)
      | _ \<Rightarrow> Inl TypeError)"

text \<open>
  The number that \<^verbatim>\<open>Player.__init__\<close> needs for \<^verbatim>\<open>x // TILE_SIZE\<close>: an integer, or a
  boolean (which Python counts as 0 or 1); any other value raises TypeError.
\<close>

definition as_number :: "json \<Rightarrow> py_error + int" where
  "as_number j =
     (case j of
        JInt n \<Rightarrow> Inr n
      | JBool b \<Rightarrow> Inr (if b then 1 else 0)
      | _ \<Rightarrow> Inl TypeError)"

text \<open>
  The loaded player: \<^verbatim>\<open>Player(pos_x, pos_y)\<close> with the score and the ledger entries
  assigned from the file as they are, whatever JSON values they hold.
\<close>

type_synonym raw_ledger = "string \<rightharpoonup> (string \<rightharpoonup> json)"

record loaded_player =
  lp_player :: player
  lp_score :: json
  lp_words_learned :: raw_ledger

text \<open>
  What \<^verbatim>\<open>load_progress\<close> assigns: \<^verbatim>\<open>self.player\<close> (absent until assigned),
  \<^verbatim>\<open>self.target_language\<close> and the global \<^verbatim>\<open>CURRENT_WINDOW_MODE\<close>.
\<close>

record load_state =
  ls_player :: "loaded_player option"
  ls_target_language :: json
  ls_window_mode :: json

text \<open>The state in which \<^verbatim>\<open>Game.__init__\<close> calls \<^verbatim>\<open>load_progress\<close>.\<close>

definition fresh_state :: load_state where
  "fresh_state = \<lparr>ls_player = None, ls_target_language = JString ''spanish'',
                   ls_window_mode = JInt WINDOW_MODE_FULLSCREEN\<rparr>"

fun load_words :: "(string \<times> json) list \<Rightarrow> string \<Rightarrow> raw_ledger \<Rightarrow> raw_ledger" where
  "load_words [] language wl = wl"
| "load_words ((word, data) # rest) language wl =
     load_words rest language
       (wl(language \<mapsto> (case wl language of None \<Rightarrow> Map.empty | Some d \<Rightarrow> d)(word \<mapsto> data)))"

fun load_languages :: "(string \<times> json) list \<Rightarrow> raw_ledger \<Rightarrow> py_error + raw_ledger" where
  "load_languages [] wl = Inr wl"
| "load_languages ((language, words) # rest) wl =
     (case words of
        JObject kvs \<Rightarrow> load_languages rest (load_words kvs language wl)
      | _ \<Rightarrow> Inl AttributeError)"

definition load_settings :: "json \<Rightarrow> load_state \<Rightarrow> py_error + load_state" where
  "load_settings save_data ls =
     (case save_data of
        JObject kvs \<Rightarrow>
          (case map_of kvs ''settings'' of
             None \<Rightarrow> Inr ls
           | Some settings \<Rightarrow>
               (case dict_get settings ''language'' (JString ''spanish'') of
                  Inl err \<Rightarrow> Inl err
                | Inr language \<Rightarrow>
                    (case dict_get settings ''window_mode'' (JInt WINDOW_MODE_FULLSCREEN) of
                       Inl err \<Rightarrow> Inl err
                     | Inr window_mode \<Rightarrow>
                         Inr (ls\<lparr>ls_target_language := language, ls_window_mode := window_mode\<rparr>))))
      | _ \<Rightarrow> Inl TypeError)"

text \<open>
  The body of the \<^verbatim>\<open>try\<close> once the file has been parsed, statement by statement; the
  first exception ends it.
\<close>

definition load_parsed :: "json \<Rightarrow> load_state \<Rightarrow> py_error + load_state" where
  "load_parsed save_data ls =
     (case dict_get save_data ''position'' (JObject []) of Inl err \<Rightarrow> Inl err | Inr pos1 \<Rightarrow>
      case dict_get pos1 ''x'' (JInt 0) of Inl err \<Rightarrow> Inl err | Inr pos_x \<Rightarrow>
      case dict_get save_data ''position'' (JObject []) of Inl err \<Rightarrow> Inl err | Inr pos2 \<Rightarrow>
      case dict_get pos2 ''y'' (JInt 0) of Inl err \<Rightarrow> Inl err | Inr pos_y \<Rightarrow>
      case as_number pos_x of Inl err \<Rightarrow> Inl err | Inr x \<Rightarrow>
      case as_number pos_y of Inl err \<Rightarrow> Inl err | Inr y \<Rightarrow>
      case dict_item save_data ''score'' of Inl err \<Rightarrow> Inl err | Inr score \<Rightarrow>
      case dict_item save_data ''words_learned'' of Inl err \<Rightarrow> Inl err | Inr words_learned \<Rightarrow>
      case words_learned of
        JObject langs \<Rightarrow>
          (case load_languages langs Map.empty of
             Inl err \<Rightarrow> Inl err
           | Inr wl \<Rightarrow>
               load_settings save_data
                 (ls\<lparr>ls_player := Some \<lparr>lp_player = Player x y, lp_score = score,
                                         lp_words_learned = wl\<rparr>\<rparr>))
      | _ \<Rightarrow> Inl AttributeError)"

text \<open>
  \<^verbatim>\<open>load_progress\<close>: the \<^verbatim>\<open>except\<close> clause catches FileNotFoundError and
  JSONDecodeError, and any other exception leaves the method.
\<close>

definition load_progress :: "load_state \<Rightarrow> save_file \<Rightarrow> py_error + load_state" where
  "load_progress ls file =
     (case file of
        FileMissing \<Rightarrow> Inr ls
      | NotJSON \<Rightarrow> Inr ls
      | Parsed save_data \<Rightarrow> load_parsed save_data ls)"

text \<open>
  What \<^verbatim>\<open>Game.__init__\<close> goes on with after \<^verbatim>\<open>load_progress\<close> has returned: the loaded
  player, or \<^verbatim>\<open>Player(0, 0)\<close> with its score of 0 and its empty ledger.
\<close>

definition player_after_load :: "load_state \<Rightarrow> loaded_player" where
  "player_after_load ls =
     (case ls_player ls of
        Some lp \<Rightarrow> lp
      | None \<Rightarrow> \<lparr>lp_player = Player 0 0, lp_score = JInt 0, lp_words_learned = Map.empty\<rparr>)"

section \<open>Invariants and a test generator\<close>

text \<open>
  The shape of a generated grid: \<^verbatim>\<open>CHUNK_SIZE\<close> rows of \<^verbatim>\<open>CHUNK_SIZE\<close> tiles. A
  feature routine keeps the grid when, started on a grid of that shape, it raises nothing
  and returns a grid of that shape; \<open>keeps_grid_break\<close> is the same for the body of a
  loop that may break. A world is in order when every cached chunk has such a grid.
\<close>

definition wf_grid :: "grid \<Rightarrow> bool" where
  "wf_grid tiles \<longleftrightarrow>
     int (length tiles) = CHUNK_SIZE \<and> (\<forall>row \<in> set tiles. int (length row) = CHUNK_SIZE)"

definition keeps_grid :: "(grid \<times> 's \<Rightarrow> (grid \<times> 's) option) \<Rightarrow> bool" where
  "keeps_grid f \<longleftrightarrow>
     (\<forall>tiles s. wf_grid tiles \<longrightarrow> (\<exists>tiles' s'. f (tiles, s) = Some (tiles', s') \<and> wf_grid tiles'))"

definition keeps_grid_break :: "(grid \<times> 's \<Rightarrow> ((grid \<times> 's) \<times> bool) option) \<Rightarrow> bool" where
  "keeps_grid_break f \<longleftrightarrow>
     (\<forall>tiles s. wf_grid tiles \<longrightarrow>
        (\<exists>tiles' s' b. f (tiles, s) = Some ((tiles', s'), b) \<and> wf_grid tiles'))"

definition world_ok :: "'s world \<Rightarrow> bool" where
  "world_ok w \<longleftrightarrow> (\<forall>k c. w_chunks w k = Some c \<longrightarrow> wf_grid (c_tiles c))"

text \<open>
  The agreement that the specification asks of an object's \<^verbatim>\<open>mastered\<close> flag: it is
  the mastered flag of the ledger entry for the object's type in the selected language, and
  false where the ledger has no such entry.
\<close>

definition mastered_agrees :: "game_object \<Rightarrow> string \<Rightarrow> ledger \<Rightarrow> bool" where
  "mastered_agrees obj target_language words_learned \<longleftrightarrow>
     o_mastered obj =
       (case ledger_entry words_learned target_language (name_of (o_obj_type obj)) of
          None \<Rightarrow> False
        | Some e \<Rightarrow> e_mastered e)"

text \<open>
  A generator to run the model on concrete inputs: it has a single state, and every draw
  returns 0, so every probability test succeeds and every range yields its lower bound.
\<close>

definition zero_prng :: "unit prng" where
  "zero_prng = \<lparr>seed_str = (\<lambda>_. ()), next_random = (\<lambda>s. (0, s)), next_below = (\<lambda>n s. (0, s))\<rparr>"

section \<open>Generation never fails and keeps the grid's shape\<close>

text \<open>
  Every index that the feature routines use lies inside the grid, so no grid access raises,
  and every routine returns a grid of the shape it was given.
\<close>
lemma in_py_range [simp]: "x \<in> set (py_range a b) \<longleftrightarrow> a \<le> x \<and> x < b"
  by (auto simp: py_range_def)

lemma randint_bounds: "a \<le> b \<Longrightarrow> a \<le> fst (randint P a b s) \<and> fst (randint P a b s) \<le> b"
proof -
  assume ab: "a \<le> b"
  obtain k s' where ks: "next_below P (nat (b - a + 1)) s = (k, s')" by (cases "next_below P (nat (b - a + 1)) s")
  have "k mod nat (b - a + 1) < nat (b - a + 1)" using ab by simp
  then have "int (k mod nat (b - a + 1)) \<le> b - a" using ab by linarith
  then show ?thesis by (simp add: randint_def Let_def ks)
qed

lemma for_each_inv:
  assumes "\<And>x s. x \<in> set xs \<Longrightarrow> I s \<Longrightarrow> \<exists>s'. body x s = Some s' \<and> I s'"
    and "I s"
  shows "\<exists>s'. for_each xs body s = Some s' \<and> I s'"
  using assms
proof (induction xs arbitrary: s)
  case Nil then show ?case by simp
next
  case (Cons x xs)
  from Cons.prems obtain s1 where s1: "body x s = Some s1" "I s1" by (meson list.set_intros(1))
  have "\<exists>s'. for_each xs body s1 = Some s' \<and> I s'"
    by (rule Cons.IH) (use Cons.prems s1 in auto)
  then show ?case by (simp add: s1)
qed

lemma for_break_inv:
  assumes "\<And>x s. x \<in> set xs \<Longrightarrow> I s \<Longrightarrow> \<exists>s' b. body x s = Some (s', b) \<and> I s'"
    and "I s"
  shows "\<exists>s'. for_break xs body s = Some s' \<and> I s'"
  using assms
proof (induction xs arbitrary: s)
  case Nil then show ?case by simp
next
  case (Cons x xs)
  from Cons.prems obtain s1 b where s1: "body x s = Some (s1, b)" "I s1" by (meson list.set_intros(1))
  have "\<exists>s'. for_break xs body s1 = Some s' \<and> I s'"
    by (rule Cons.IH) (use Cons.prems s1 in auto)
  then show ?case using s1 by simp
qed

lemma tile_read_wf:
  assumes "wf_grid tiles" "0 \<le> y" "y < CHUNK_SIZE" "0 \<le> x" "x < CHUNK_SIZE"
  shows "tile_read tiles y x = Some (tiles ! nat y ! nat x)"
proof -
  have ly: "nat y < length tiles" using assms unfolding wf_grid_def by linarith
  then have "tiles ! nat y \<in> set tiles" by simp
  then have "int (length (tiles ! nat y)) = CHUNK_SIZE" using assms(1) by (simp add: wf_grid_def)
  then show ?thesis using assms ly
    by (simp add: tile_read_def py_index_def Let_def wf_grid_def)
qed

lemma wf_grid_update: "wf_grid tiles \<Longrightarrow> wf_grid (tiles[i := (tiles ! i)[j := v]])"
proof (cases "i < length tiles")
  case True
  assume w: "wf_grid tiles"
  then have r: "int (length ((tiles ! i)[j := v])) = CHUNK_SIZE" using True by (simp add: wf_grid_def)
  have "set (tiles[i := (tiles ! i)[j := v]]) \<subseteq> insert ((tiles ! i)[j := v]) (set tiles)"
    by (rule set_update_subset_insert)
  then have "\<forall>row \<in> set (tiles[i := (tiles ! i)[j := v]]). int (length row) = CHUNK_SIZE"
    using w r unfolding wf_grid_def by blast
  then show ?thesis using w by (simp add: wf_grid_def)
next
  case False
  assume w: "wf_grid tiles"
  have "length tiles \<le> i" using False by simp
  then have "tiles[i := (tiles ! i)[j := v]] = tiles" by (rule list_update_beyond)
  then show ?thesis using w by simp
qed

lemma tile_write_wf:
  assumes "wf_grid tiles" "0 \<le> y" "y < CHUNK_SIZE" "0 \<le> x" "x < CHUNK_SIZE"
  shows "tile_write tiles y x v = Some (tiles[nat y := (tiles ! nat y)[nat x := v]])"
proof -
  have ly: "nat y < length tiles" using assms unfolding wf_grid_def by linarith
  then have "tiles ! nat y \<in> set tiles" by simp
  then have lr: "int (length (tiles ! nat y)) = CHUNK_SIZE" using assms(1) by (simp add: wf_grid_def)
  show ?thesis using assms ly lr
    by (simp add: tile_write_def py_index_def py_store_def Let_def wf_grid_def)
qed

lemma keeps_gridI:
  "(\<And>tiles s. wf_grid tiles \<Longrightarrow> \<exists>tiles' s'. f (tiles, s) = Some (tiles', s') \<and> wf_grid tiles') \<Longrightarrow> keeps_grid f"
  by (simp add: keeps_grid_def)

lemma keeps_gridD:
  "keeps_grid f \<Longrightarrow> wf_grid tiles \<Longrightarrow> \<exists>tiles' s'. f (tiles, s) = Some (tiles', s') \<and> wf_grid tiles'"
  by (simp add: keeps_grid_def)

lemma for_each_keeps:
  fixes body :: "'a \<Rightarrow> grid \<times> 's \<Rightarrow> (grid \<times> 's) option"
  assumes "\<And>x. x \<in> set xs \<Longrightarrow> keeps_grid (body x)"
  shows "keeps_grid (for_each xs body)"
proof (rule keeps_gridI)
  fix tiles :: grid and s :: 's
  assume w: "wf_grid tiles"
  have "\<exists>st'. for_each xs body (tiles, s) = Some st' \<and> wf_grid (fst st')"
  proof (rule for_each_inv[where I = "\<lambda>st. wf_grid (fst st)"])
    fix x and st :: "grid \<times> 's" assume "x \<in> set xs" "wf_grid (fst st)"
    then show "\<exists>s'. body x st = Some s' \<and> wf_grid (fst s')"
      using keeps_gridD[OF assms, of x "fst st" "snd st"] by auto
  qed (simp add: w)
  then show "\<exists>tiles' s'. for_each xs body (tiles, s) = Some (tiles', s') \<and> wf_grid tiles'" by auto
qed

lemma for_break_keeps:
  fixes body :: "'a \<Rightarrow> grid \<times> 's \<Rightarrow> ((grid \<times> 's) \<times> bool) option"
  assumes "\<And>x. x \<in> set xs \<Longrightarrow> keeps_grid_break (body x)"
  shows "keeps_grid (for_break xs body)"
proof (rule keeps_gridI)
  fix tiles :: grid and s :: 's
  assume w: "wf_grid tiles"
  have "\<exists>st'. for_break xs body (tiles, s) = Some st' \<and> wf_grid (fst st')"
  proof (rule for_break_inv[where I = "\<lambda>st. wf_grid (fst st)"])
    fix x and st :: "grid \<times> 's" assume "x \<in> set xs" "wf_grid (fst st)"
    then show "\<exists>s' b. body x st = Some (s', b) \<and> wf_grid (fst s')"
      using assms[of x] unfolding keeps_grid_break_def by (cases st) fastforce
  qed (simp add: w)
  then show "\<exists>tiles' s'. for_break xs body (tiles, s) = Some (tiles', s') \<and> wf_grid tiles'" by auto
qed

lemma path_row_keeps:
  assumes "0 \<le> y" "y < CHUNK_SIZE" "wf_grid tiles"
  shows "\<exists>tiles'. for_each (py_range 0 CHUNK_SIZE) (\<lambda>x tiles. tile_write tiles y x Path) tiles = Some tiles' \<and> wf_grid tiles'"
  by (rule for_each_inv) (use assms in \<open>auto simp: tile_write_wf wf_grid_update\<close>)

lemma path_col_keeps:
  assumes "0 \<le> x" "x < CHUNK_SIZE" "wf_grid tiles"
  shows "\<exists>tiles'. for_each (py_range 0 CHUNK_SIZE) (\<lambda>y tiles. tile_write tiles y x Path) tiles = Some tiles' \<and> wf_grid tiles'"
  by (rule for_each_inv) (use assms in \<open>auto simp: tile_write_wf wf_grid_update\<close>)

lemma path_randint: "0 \<le> fst (randint P (CHUNK_SIZE div 4) (3 * CHUNK_SIZE div 4) s) \<and>
   fst (randint P (CHUNK_SIZE div 4) (3 * CHUNK_SIZE div 4) s) < CHUNK_SIZE"
  using randint_bounds[of "CHUNK_SIZE div 4" "3 * CHUNK_SIZE div 4" P s] by (simp add: CHUNK_SIZE_def)

lemma generate_path_keeps: "keeps_grid (generate_path (P :: 's prng))"
proof (rule keeps_gridI)
  fix tiles :: grid and s :: 's
  assume w: "wf_grid tiles"
  obtain pt s1 where c: "choice P [''horizontal'', ''vertical'', ''both''] s = (pt, s1)" by force
  obtain y s2 where ry: "randint P (CHUNK_SIZE div 4) (3 * CHUNK_SIZE div 4) s1 = (y, s2)" by force
  have yb: "0 \<le> y" "y < CHUNK_SIZE" using path_randint[of P s1] ry by auto
  obtain t1 s3 where first:
    "(if pt \<in> set [''horizontal'', ''both''] then
        (let (y, s) = randint P (CHUNK_SIZE div 4) (3 * CHUNK_SIZE div 4) s1 in
         do { tiles \<leftarrow> for_each (py_range 0 CHUNK_SIZE) (\<lambda>x tiles. tile_write tiles y x Path) tiles;
              Some (tiles, s) })
      else Some (tiles, s1)) = Some (t1, s3)" and w1: "wf_grid t1"
  proof (cases "pt \<in> set [''horizontal'', ''both'']")
    case True
    from path_row_keeps[OF yb w] obtain t' where
      "for_each (py_range 0 CHUNK_SIZE) (\<lambda>x tiles. tile_write tiles y x Path) tiles = Some t'" "wf_grid t'"
      by blast
    then show ?thesis using that True ry by simp
  next
    case False
    then show ?thesis using that w by simp
  qed
  obtain x s4 where rx: "randint P (CHUNK_SIZE div 4) (3 * CHUNK_SIZE div 4) s3 = (x, s4)" by force
  have xb: "0 \<le> x" "x < CHUNK_SIZE" using path_randint[of P s3] rx by auto
  have "\<exists>t2 s5.
    (if pt \<in> set [''vertical'', ''both''] then
        (let (x, s) = randint P (CHUNK_SIZE div 4) (3 * CHUNK_SIZE div 4) s3 in
         do { tiles \<leftarrow> for_each (py_range 0 CHUNK_SIZE) (\<lambda>y tiles. tile_write tiles y x Path) t1;
              Some (tiles, s) })
      else Some (t1, s3)) = Some (t2, s5) \<and> wf_grid t2"
  proof (cases "pt \<in> set [''vertical'', ''both'']")
    case True
    from path_col_keeps[OF xb w1] obtain t' where
      "for_each (py_range 0 CHUNK_SIZE) (\<lambda>y tiles. tile_write tiles y x Path) t1 = Some t'" "wf_grid t'"
      by blast
    then show ?thesis using True rx by simp
  next
    case False
    then show ?thesis using w1 by simp
  qed
  then show "\<exists>tiles' s'. generate_path P (tiles, s) = Some (tiles', s') \<and> wf_grid tiles'"
    using first c by (simp add: generate_path_def)
qed

lemma keeps_grid_breakI:
  "(\<And>tiles s. wf_grid tiles \<Longrightarrow> \<exists>tiles' s' b. f (tiles, s) = Some ((tiles', s'), b) \<and> wf_grid tiles') \<Longrightarrow> keeps_grid_break f"
  by (simp add: keeps_grid_break_def)

lemma tree_cell_keeps:
  assumes "0 \<le> y" "y < CHUNK_SIZE" "0 \<le> x" "x < CHUNK_SIZE"
  shows "keeps_grid (tree_cell P center_x center_y radius y x)"
  by (rule keeps_gridI)
     (use assms in \<open>auto simp: tree_cell_def tile_read_wf tile_write_wf wf_grid_update split: prod.splits\<close>)

lemma water_cell_keeps:
  assumes "0 \<le> y" "y < CHUNK_SIZE" "0 \<le> x" "x < CHUNK_SIZE"
  shows "keeps_grid (water_cell P center_x center_y radius y x)"
  by (rule keeps_gridI)
     (use assms in \<open>auto simp: water_cell_def tile_write_wf wf_grid_update split: prod.splits\<close>)

lemma blob_keeps:
  fixes cell :: "int \<Rightarrow> int \<Rightarrow> grid \<times> 's \<Rightarrow> (grid \<times> 's) option"
  assumes "\<And>y x. 0 \<le> y \<Longrightarrow> y < CHUNK_SIZE \<Longrightarrow> 0 \<le> x \<Longrightarrow> x < CHUNK_SIZE \<Longrightarrow> keeps_grid (cell y x)"
  shows "keeps_grid (for_each (py_range (max 0 a) (min CHUNK_SIZE b))
           (\<lambda>y. for_each (py_range (max 0 c) (min CHUNK_SIZE d)) (\<lambda>x. cell y x)))"
  by (intro for_each_keeps assms) auto

lemma tree_cluster_keeps: "keeps_grid (tree_cluster (P :: 's prng))"
proof (rule keeps_gridI)
  fix tiles :: grid and s :: 's
  assume w: "wf_grid tiles"
  obtain cx s1 where a: "randint P 2 (CHUNK_SIZE - 3) s = (cx, s1)" by force
  obtain cy s2 where b: "randint P 2 (CHUNK_SIZE - 3) s1 = (cy, s2)" by force
  obtain r s3 where c: "randint P 2 4 s2 = (r, s3)" by force
  have "keeps_grid (for_each (py_range (max 0 (cy - r)) (min CHUNK_SIZE (cy + r)))
          (\<lambda>y. for_each (py_range (max 0 (cx - r)) (min CHUNK_SIZE (cx + r)))
                  (\<lambda>x. tree_cell P cx cy r y x)))"
    by (rule blob_keeps) (rule tree_cell_keeps)
  from keeps_gridD[OF this w, of s3]
  show "\<exists>tiles' s'. tree_cluster P (tiles, s) = Some (tiles', s') \<and> wf_grid tiles'"
    by (simp add: tree_cluster_def a b c)
qed

lemma generate_trees_keeps: "keeps_grid (generate_trees (P :: 's prng))"
proof (rule keeps_gridI)
  fix tiles :: grid and s :: 's
  assume w: "wf_grid tiles"
  obtain n s1 where a: "randint P 1 3 s = (n, s1)" by force
  have "keeps_grid (for_each (py_range 0 n) (\<lambda>_. tree_cluster P))"
    by (rule for_each_keeps) (rule tree_cluster_keeps)
  from keeps_gridD[OF this w, of s1]
  show "\<exists>tiles' s'. generate_trees P (tiles, s) = Some (tiles', s') \<and> wf_grid tiles'"
    by (simp add: generate_trees_def a)
qed

lemma generate_water_keeps: "keeps_grid (generate_water (P :: 's prng))"
proof (rule keeps_gridI)
  fix tiles :: grid and s :: 's
  assume w: "wf_grid tiles"
  obtain cx s1 where a: "randint P 3 (CHUNK_SIZE - 4) s = (cx, s1)" by force
  obtain cy s2 where b: "randint P 3 (CHUNK_SIZE - 4) s1 = (cy, s2)" by force
  obtain r s3 where c: "randint P 2 5 s2 = (r, s3)" by force
  have "keeps_grid (for_each (py_range (max 0 (cy - r)) (min CHUNK_SIZE (cy + r)))
          (\<lambda>y. for_each (py_range (max 0 (cx - r)) (min CHUNK_SIZE (cx + r)))
                  (\<lambda>x. water_cell P cx cy r y x)))"
    by (rule blob_keeps) (rule water_cell_keeps)
  from keeps_gridD[OF this w, of s3]
  show "\<exists>tiles' s'. generate_water P (tiles, s) = Some (tiles', s') \<and> wf_grid tiles'"
    by (simp add: generate_water_def a b c)
qed

lemma in_neighbourhood:
  "(ny, nx) \<in> set (neighbourhood y x) \<Longrightarrow> 0 \<le> ny \<and> ny < CHUNK_SIZE \<and> 0 \<le> nx \<and> nx < CHUNK_SIZE"
  by (auto simp: neighbourhood_def)

lemma name_nearby_total:
  assumes "wf_grid tiles"
    and "\<And>ny nx. (ny, nx) \<in> set cs \<Longrightarrow> 0 \<le> ny \<and> ny < CHUNK_SIZE \<and> 0 \<le> nx \<and> nx < CHUNK_SIZE"
  shows "\<exists>b. name_nearby tiles nm cs = Some b"
  using assms(2)
proof (induction cs)
  case Nil then show ?case by auto
next
  case (Cons c cs)
  obtain ny nx where c: "c = (ny, nx)" by (cases c)
  have "0 \<le> ny \<and> ny < CHUNK_SIZE \<and> 0 \<le> nx \<and> nx < CHUNK_SIZE" using Cons.prems[of ny nx] c by simp
  then have r: "tile_read tiles ny nx = Some (tiles ! nat ny ! nat nx)"
    using assms(1) by (simp add: tile_read_wf)
  have "\<exists>b. name_nearby tiles nm cs = Some b" by (rule Cons.IH) (use Cons.prems in auto)
  then obtain b where "name_nearby tiles nm cs = Some b" by blast
  then show ?case by (cases "name_of (tiles ! nat ny ! nat nx) = nm") (auto simp: c r)
qed

lemma flower_cell_keeps:
  assumes "c \<in> set (neighbourhood y x)"
  shows "keeps_grid (flower_cell P y x c)"
proof -
  obtain ny nx where c: "c = (ny, nx)" by (cases c)
  have b: "0 \<le> ny" "ny < CHUNK_SIZE" "0 \<le> nx" "nx < CHUNK_SIZE"
    using in_neighbourhood[of ny nx y x] assms c by auto
  show ?thesis
    by (rule keeps_gridI)
       (use b in \<open>auto simp: c flower_cell_def tile_read_wf tile_write_wf wf_grid_update split: prod.splits\<close>)
qed

lemma randint_in_chunk:
  assumes "0 \<le> a" "a \<le> b" "b < CHUNK_SIZE" "randint P a b s = (v, s')"
  shows "0 \<le> v" "v < CHUNK_SIZE"
  using randint_bounds[OF assms(2), of P s] assms by auto

lemma house_attempt_keeps: "keeps_grid_break (house_attempt (P :: 's prng) attempt)"
proof (rule keeps_grid_breakI)
  fix tiles :: grid and s :: 's
  assume w: "wf_grid tiles"
  obtain x s1 where a: "randint P 1 (CHUNK_SIZE - 2) s = (x, s1)" by force
  obtain y s2 where b: "randint P 1 (CHUNK_SIZE - 2) s1 = (y, s2)" by force
  have xb: "0 \<le> x" "x < CHUNK_SIZE" using randint_in_chunk[OF _ _ _ a] by (simp_all add: CHUNK_SIZE_def)
  have yb: "0 \<le> y" "y < CHUNK_SIZE" using randint_in_chunk[OF _ _ _ b] by (simp_all add: CHUNK_SIZE_def)
  obtain hp where hp: "name_nearby tiles ''path'' (neighbourhood y x) = Some hp"
    using name_nearby_total[OF w, of "neighbourhood y x" "''path''"] in_neighbourhood[of _ _ y x] by blast
  have rd: "tile_read tiles y x = Some (tiles ! nat y ! nat x)" using w xb yb by (simp add: tile_read_wf)
  have wr: "tile_write tiles y x House = Some (tiles[nat y := (tiles ! nat y)[nat x := House]])"
    using w xb yb by (simp add: tile_write_wf)
  have w2: "wf_grid (tiles[nat y := (tiles ! nat y)[nat x := House]])" using w by (rule wf_grid_update)
  have "keeps_grid (for_each (neighbourhood y x) (flower_cell P y x))"
    by (rule for_each_keeps) (rule flower_cell_keeps)
  from keeps_gridD[OF this w2, of s2] obtain t3 s3 where
    fl: "for_each (neighbourhood y x) (flower_cell P y x) (tiles[nat y := (tiles ! nat y)[nat x := House]], s2) = Some (t3, s3)"
    and w3: "wf_grid t3" by blast
  show "\<exists>tiles' s' b. house_attempt P attempt (tiles, s) = Some ((tiles', s'), b) \<and> wf_grid tiles'"
    using w w3 by (auto simp: house_attempt_def a b hp rd wr fl)
qed

lemma generate_houses_keeps: "keeps_grid (generate_houses (P :: 's prng))"
proof (rule keeps_gridI)
  fix tiles :: grid and s :: 's
  assume w: "wf_grid tiles"
  obtain n s1 where a: "randint P 0 3 s = (n, s1)" by force
  have "keeps_grid (for_each (py_range 0 n) (\<lambda>_. for_break (py_range 0 10) (house_attempt P)))"
    by (intro for_each_keeps for_break_keeps house_attempt_keeps)
  from keeps_gridD[OF this w, of s1]
  show "\<exists>tiles' s'. generate_houses P (tiles, s) = Some (tiles', s') \<and> wf_grid tiles'"
    by (simp add: generate_houses_def a)
qed

lemma log_attempt_keeps: "keeps_grid_break (log_attempt (P :: 's prng) attempt)"
proof (rule keeps_grid_breakI)
  fix tiles :: grid and s :: 's
  assume w: "wf_grid tiles"
  obtain x s1 where a: "randint P 0 (CHUNK_SIZE - 1) s = (x, s1)" by force
  obtain y s2 where b: "randint P 0 (CHUNK_SIZE - 1) s1 = (y, s2)" by force
  have xb: "0 \<le> x" "x < CHUNK_SIZE" using randint_in_chunk[OF _ _ _ a] by (simp_all add: CHUNK_SIZE_def)
  have yb: "0 \<le> y" "y < CHUNK_SIZE" using randint_in_chunk[OF _ _ _ b] by (simp_all add: CHUNK_SIZE_def)
  obtain tn where tn: "name_nearby tiles ''tree'' (neighbourhood y x) = Some tn"
    using name_nearby_total[OF w, of "neighbourhood y x" "''tree''"] in_neighbourhood[of _ _ y x] by blast
  have rd: "tile_read tiles y x = Some (tiles ! nat y ! nat x)" using w xb yb by (simp add: tile_read_wf)
  have wr: "tile_write tiles y x Log = Some (tiles[nat y := (tiles ! nat y)[nat x := Log]])"
    using w xb yb by (simp add: tile_write_wf)
  have w2: "wf_grid (tiles[nat y := (tiles ! nat y)[nat x := Log]])" using w by (rule wf_grid_update)
  show "\<exists>tiles' s' b. log_attempt P attempt (tiles, s) = Some ((tiles', s'), b) \<and> wf_grid tiles'"
    using w w2 by (auto simp: log_attempt_def a b tn rd wr)
qed

lemma grass_attempt_keeps: "keeps_grid_break (grass_attempt (P :: 's prng) obj attempt)"
proof (rule keeps_grid_breakI)
  fix tiles :: grid and s :: 's
  assume w: "wf_grid tiles"
  obtain x s1 where a: "randint P 0 (CHUNK_SIZE - 1) s = (x, s1)" by force
  obtain y s2 where b: "randint P 0 (CHUNK_SIZE - 1) s1 = (y, s2)" by force
  have xb: "0 \<le> x" "x < CHUNK_SIZE" using randint_in_chunk[OF _ _ _ a] by (simp_all add: CHUNK_SIZE_def)
  have yb: "0 \<le> y" "y < CHUNK_SIZE" using randint_in_chunk[OF _ _ _ b] by (simp_all add: CHUNK_SIZE_def)
  have rd: "tile_read tiles y x = Some (tiles ! nat y ! nat x)" using w xb yb by (simp add: tile_read_wf)
  have wr: "tile_write tiles y x obj = Some (tiles[nat y := (tiles ! nat y)[nat x := obj]])"
    using w xb yb by (simp add: tile_write_wf)
  have w2: "wf_grid (tiles[nat y := (tiles ! nat y)[nat x := obj]])" using w by (rule wf_grid_update)
  show "\<exists>tiles' s' b. grass_attempt P obj attempt (tiles, s) = Some ((tiles', s'), b) \<and> wf_grid tiles'"
    using w w2 by (auto simp: grass_attempt_def a b rd wr)
qed

lemma bird_attempt_keeps: "keeps_grid_break (bird_attempt (P :: 's prng) bird_in_tree attempt)"
proof (rule keeps_grid_breakI)
  fix tiles :: grid and s :: 's
  assume w: "wf_grid tiles"
  obtain x s1 where a: "randint P 0 (CHUNK_SIZE - 1) s = (x, s1)" by force
  obtain y s2 where b: "randint P 0 (CHUNK_SIZE - 1) s1 = (y, s2)" by force
  have xb: "0 \<le> x" "x < CHUNK_SIZE" using randint_in_chunk[OF _ _ _ a] by (simp_all add: CHUNK_SIZE_def)
  have yb: "0 \<le> y" "y < CHUNK_SIZE" using randint_in_chunk[OF _ _ _ b] by (simp_all add: CHUNK_SIZE_def)
  have rd: "tile_read tiles y x = Some (tiles ! nat y ! nat x)" using w xb yb by (simp add: tile_read_wf)
  have wr: "tile_write tiles y x Bird = Some (tiles[nat y := (tiles ! nat y)[nat x := Bird]])"
    using w xb yb by (simp add: tile_write_wf)
  have w2: "wf_grid (tiles[nat y := (tiles ! nat y)[nat x := Bird]])" using w by (rule wf_grid_update)
  show "\<exists>tiles' s' b. bird_attempt P bird_in_tree attempt (tiles, s) = Some ((tiles', s'), b) \<and> wf_grid tiles'"
    using w w2 by (auto simp: bird_attempt_def a b rd wr)
qed

lemma place_bird_keeps: "keeps_grid (place_bird (P :: 's prng))"
proof (rule keeps_gridI)
  fix tiles :: grid and s :: 's
  assume w: "wf_grid tiles"
  obtain u s1 where a: "next_random P s = (u, s1)" by force
  have "keeps_grid (for_break (py_range 0 5) (bird_attempt P (u < f0_5)))"
    by (intro for_break_keeps bird_attempt_keeps)
  from keeps_gridD[OF this w, of s1]
  show "\<exists>tiles' s'. place_bird P (tiles, s) = Some (tiles', s') \<and> wf_grid tiles'"
    by (simp add: place_bird_def a)
qed

lemma generate_forest_elements_keeps: "keeps_grid (generate_forest_elements (P :: 's prng))"
proof (rule keeps_gridI)
  fix tiles :: grid and s :: 's
  assume w: "wf_grid tiles"
  obtain n s1 where a: "randint P 0 3 s = (n, s1)" by force
  have "keeps_grid (for_each (py_range 0 n) (\<lambda>_. for_break (py_range 0 5) (log_attempt P)))"
    by (intro for_each_keeps for_break_keeps log_attempt_keeps)
  from keeps_gridD[OF this w, of s1] obtain t2 s2 where
    l: "for_each (py_range 0 n) (\<lambda>_. for_break (py_range 0 5) (log_attempt P)) (tiles, s1) = Some (t2, s2)"
    and w2: "wf_grid t2" by blast
  obtain m s3 where b: "randint P 1 5 s2 = (m, s3)" by force
  have "keeps_grid (for_each (py_range 0 m) (\<lambda>_. for_break (py_range 0 5) (grass_attempt P Bush)))"
    by (intro for_each_keeps for_break_keeps grass_attempt_keeps)
  from keeps_gridD[OF this w2, of s3]
  show "\<exists>tiles' s'. generate_forest_elements P (tiles, s) = Some (tiles', s') \<and> wf_grid tiles'"
    by (simp add: generate_forest_elements_def a l b)
qed

lemma generate_animals_keeps: "keeps_grid (generate_animals (P :: 's prng))"
proof (rule keeps_gridI)
  fix tiles :: grid and s :: 's
  assume w: "wf_grid tiles"
  obtain n s1 where a: "randint P 0 2 s = (n, s1)" by force
  have "keeps_grid (for_each (py_range 0 n) (\<lambda>_. for_break (py_range 0 5) (grass_attempt P Rabbit)))"
    by (intro for_each_keeps for_break_keeps grass_attempt_keeps)
  from keeps_gridD[OF this w, of s1] obtain t2 s2 where
    l: "for_each (py_range 0 n) (\<lambda>_. for_break (py_range 0 5) (grass_attempt P Rabbit)) (tiles, s1) = Some (t2, s2)"
    and w2: "wf_grid t2" by blast
  obtain m s3 where b: "randint P 0 2 s2 = (m, s3)" by force
  have "keeps_grid (for_each (py_range 0 m) (\<lambda>_. place_bird P))"
    by (intro for_each_keeps place_bird_keeps)
  from keeps_gridD[OF this w2, of s3]
  show "\<exists>tiles' s'. generate_animals P (tiles, s) = Some (tiles', s') \<and> wf_grid tiles'"
    by (simp add: generate_animals_def a l b)
qed

lemma maybe_keeps:
  assumes "keeps_grid feature"
  shows "keeps_grid (maybe (P :: 's prng) c feature)"
proof (rule keeps_gridI)
  fix tiles :: grid and s :: 's
  assume w: "wf_grid tiles"
  obtain u s1 where a: "next_random P s = (u, s1)" by force
  show "\<exists>tiles' s'. maybe P c feature (tiles, s) = Some (tiles', s') \<and> wf_grid tiles'"
    using keeps_gridD[OF assms w, of s1] w by (simp add: maybe_def a)
qed

lemma keeps_grid_bind:
  fixes f g :: "grid \<times> 's \<Rightarrow> (grid \<times> 's) option"
  assumes "keeps_grid f" "keeps_grid g"
  shows "keeps_grid (\<lambda>st. Option.bind (f st) g)"
proof (rule keeps_gridI)
  fix tiles :: grid and s :: 's
  assume w: "wf_grid tiles"
  from keeps_gridD[OF assms(1) w, of s] obtain t1 s1 where a: "f (tiles, s) = Some (t1, s1)" "wf_grid t1" by blast
  from keeps_gridD[OF assms(2) a(2), of s1] show "\<exists>tiles' s'. Option.bind (f (tiles, s)) g = Some (tiles', s') \<and> wf_grid tiles'"
    by (simp add: a)
qed

lemma keeps_grid_Some: "keeps_grid Some"
  by (simp add: keeps_grid_def)

lemma generate_features_keeps: "keeps_grid (generate_features (P :: 's prng) chunk_x chunk_y)"
proof -
  have 1: "keeps_grid (\<lambda>st. if \<bar>chunk_x\<bar> \<le> 2 \<or> \<bar>chunk_y\<bar> \<le> 2 then generate_path P st else Some st)"
    using generate_path_keeps[of P] keeps_grid_Some by (simp add: keeps_grid_def)
  have 4: "keeps_grid (\<lambda>st. if \<bar>chunk_x\<bar> \<le> 3 \<and> \<bar>chunk_y\<bar> \<le> 3 then generate_houses P st
              else maybe P f0_2 (generate_houses P) st)"
    using generate_houses_keeps[of P] maybe_keeps[OF generate_houses_keeps, of P f0_2] by (simp add: keeps_grid_def)
  have "keeps_grid (\<lambda>st. Option.bind (Option.bind (Option.bind (Option.bind (Option.bind
           (if \<bar>chunk_x\<bar> \<le> 2 \<or> \<bar>chunk_y\<bar> \<le> 2 then generate_path P st else Some st)
           (maybe P f0_7 (generate_trees P)))
           (maybe P f0_4 (generate_water P)))
           (\<lambda>st. if \<bar>chunk_x\<bar> \<le> 3 \<and> \<bar>chunk_y\<bar> \<le> 3 then generate_houses P st
              else maybe P f0_2 (generate_houses P) st))
           (maybe P f0_6 (generate_forest_elements P)))
           (maybe P f0_4 (generate_animals P)))"
    by (intro keeps_grid_bind 1 4 maybe_keeps generate_trees_keeps generate_water_keeps
          generate_forest_elements_keeps generate_animals_keeps)
  moreover have "generate_features P chunk_x chunk_y = (\<lambda>st. Option.bind (Option.bind (Option.bind (Option.bind (Option.bind
           (if \<bar>chunk_x\<bar> \<le> 2 \<or> \<bar>chunk_y\<bar> \<le> 2 then generate_path P st else Some st)
           (maybe P f0_7 (generate_trees P)))
           (maybe P f0_4 (generate_water P)))
           (\<lambda>st. if \<bar>chunk_x\<bar> \<le> 3 \<and> \<bar>chunk_y\<bar> \<le> 3 then generate_houses P st
              else maybe P f0_2 (generate_houses P) st))
           (maybe P f0_6 (generate_forest_elements P)))
           (maybe P f0_4 (generate_animals P)))"
    by (rule ext) (simp add: generate_features_def)
  ultimately show ?thesis by simp
qed

lemma wf_grass_grid: "wf_grid grass_grid"
  by (simp add: wf_grid_def grass_grid_def CHUNK_SIZE_def)

lemma generate_tiles_total:
  "\<exists>tiles. generate_tiles (P :: 's prng) chunk_x chunk_y s0 os = Some (tiles, os) \<and> wf_grid tiles"
  using keeps_gridD[OF generate_features_keeps wf_grass_grid, of P chunk_x chunk_y "seed_str P (chunk_seed chunk_x chunk_y)"]
  by (auto simp: generate_tiles_def seed_def)

section \<open>The world never fails to produce a chunk\<close>

lemma Chunk_total:
  "\<exists>tiles. Chunk (P :: 's prng) chunk_x chunk_y s0 os =
      Some (\<lparr>c_chunk_x = chunk_x, c_chunk_y = chunk_y, c_tiles = tiles, c_objects = []\<rparr>, os)
    \<and> generate_tiles P chunk_x chunk_y s0 os = Some (tiles, os) \<and> wf_grid tiles"
  using generate_tiles_total[of P chunk_x chunk_y s0 os] by (auto simp: Chunk_def)

lemma world_ok_World: "world_ok (World s)"
  by (simp add: world_ok_def World_def)

lemma world_ok_update_object:
  assumes "world_ok w"
  shows "world_ok (update_object w r f)"
proof (cases "w_chunks w (fst r)")
  case None
  then show ?thesis using assms by (simp add: update_object_def)
next
  case (Some c)
  have c: "wf_grid (c_tiles c)" using assms Some unfolding world_ok_def by blast
  show ?thesis
  proof (cases "snd r < length (c_objects c)")
    case True
    have "wf_grid (c_tiles c')"
      if "w_chunks (update_object w r f) k = Some c'" for k c'
    proof (cases "k = fst r")
      case True
      then have "c' = c\<lparr>c_objects := (c_objects c)[snd r := f (c_objects c ! snd r)]\<rparr>"
        using that Some \<open>snd r < length (c_objects c)\<close> by (simp add: update_object_def)
      then show ?thesis using c by simp
    next
      case False
      then have "w_chunks w k = Some c'"
        using that Some \<open>snd r < length (c_objects c)\<close> by (simp add: update_object_def)
      then show ?thesis using assms unfolding world_ok_def by blast
    qed
    then show ?thesis unfolding world_ok_def by blast
  next
    case False
    then show ?thesis using assms Some by (simp add: update_object_def)
  qed
qed

lemma get_chunk_total:
  assumes "world_ok (w :: 's world)"
  shows "\<exists>c w'. get_chunk P w chunk_x chunk_y os = Some (c, w') \<and> wf_grid (c_tiles c)
           \<and> w_chunks w' (chunk_x, chunk_y) = Some c \<and> world_ok w'"
proof (cases "w_chunks w (chunk_x, chunk_y)")
  case None
  from Chunk_total[of P chunk_x chunk_y "w_rng w" os] obtain tiles where
    c: "Chunk P chunk_x chunk_y (w_rng w) os =
          Some (\<lparr>c_chunk_x = chunk_x, c_chunk_y = chunk_y, c_tiles = tiles, c_objects = []\<rparr>, os)"
    and wf: "wf_grid tiles" by blast
  show ?thesis using assms wf by (simp add: get_chunk_def None c world_ok_def)
next
  case (Some c)
  then show ?thesis using assms by (simp add: get_chunk_def world_ok_def)
qed

lemma local_in_chunk: "0 \<le> t mod CHUNK_SIZE \<and> t mod CHUNK_SIZE < CHUNK_SIZE"
  by (simp add: CHUNK_SIZE_def)

section \<open>The ledger step\<close>

lemma learn_word_step:
  assumes "tile_item obj_type language = Some w"
  shows "\<exists>e' p'. learn_word p obj_type language = Inr (e', p')
     \<and> ledger_entry (p_words_learned p') language (name_of obj_type) = Some e'
     \<and> e_views e' = (case ledger_entry (p_words_learned p) language (name_of obj_type) of
                       None \<Rightarrow> 1 | Some e \<Rightarrow> e_views e + 1)
     \<and> e_mastered e' = (case ledger_entry (p_words_learned p) language (name_of obj_type) of
                       None \<Rightarrow> False | Some e \<Rightarrow> e_mastered e \<or> 5 \<le> e_views e + 1)
     \<and> p_score p' = p_score p + (case ledger_entry (p_words_learned p) language (name_of obj_type) of
                       None \<Rightarrow> 10
                     | Some e \<Rightarrow> if e_mastered e then 0 else if 5 \<le> e_views e + 1 then 50 else 2)"
  by (auto simp: learn_word_def assms dd_get_def ledger_entry_def Let_def split: option.splits)

lemma language_has_label:
  "language \<in> set LANGUAGES \<Longrightarrow> \<exists>w. tile_item obj_type language = Some w"
  by (auto simp: LANGUAGES_def tile_item_def)

lemma learn_word_five:
  assumes l: "tile_item obj_type language = Some w"
    and fresh: "ledger_entry (p_words_learned p) language (name_of obj_type) = None"
  shows "\<exists>p4 e4 p5 e5. learn_word_times 4 p obj_type language = Inr p4
      \<and> ledger_entry (p_words_learned p4) language (name_of obj_type) = Some e4
      \<and> e_views e4 = 4 \<and> \<not> e_mastered e4
      \<and> learn_word p4 obj_type language = Inr (e5, p5)
      \<and> learn_word_times 5 p obj_type language = Inr p5
      \<and> e_views e5 = 5 \<and> e_mastered e5 \<and> p_score p5 = p_score p + 66"
proof -
  from learn_word_step[OF l, of p] fresh obtain e1 p1 where
    s1: "learn_word p obj_type language = Inr (e1, p1)"
    and l1: "ledger_entry (p_words_learned p1) language (name_of obj_type) = Some e1"
    and v1: "e_views e1 = 1" "\<not> e_mastered e1" "p_score p1 = p_score p + 10" by auto
  from learn_word_step[OF l, of p1] l1 v1 obtain e2 p2 where
    s2: "learn_word p1 obj_type language = Inr (e2, p2)"
    and l2: "ledger_entry (p_words_learned p2) language (name_of obj_type) = Some e2"
    and v2: "e_views e2 = 2" "\<not> e_mastered e2" "p_score p2 = p_score p + 12" by auto
  from learn_word_step[OF l, of p2] l2 v2 obtain e3 p3 where
    s3: "learn_word p2 obj_type language = Inr (e3, p3)"
    and l3: "ledger_entry (p_words_learned p3) language (name_of obj_type) = Some e3"
    and v3: "e_views e3 = 3" "\<not> e_mastered e3" "p_score p3 = p_score p + 14" by auto
  from learn_word_step[OF l, of p3] l3 v3 obtain e4 p4 where
    s4: "learn_word p3 obj_type language = Inr (e4, p4)"
    and l4: "ledger_entry (p_words_learned p4) language (name_of obj_type) = Some e4"
    and v4: "e_views e4 = 4" "\<not> e_mastered e4" "p_score p4 = p_score p + 16" by auto
  from learn_word_step[OF l, of p4] l4 v4 obtain e5 p5 where
    s5: "learn_word p4 obj_type language = Inr (e5, p5)"
    and v5: "e_views e5 = 5" "e_mastered e5" "p_score p5 = p_score p + 66" by auto
  have t4: "learn_word_times 4 p obj_type language = Inr p4"
    by (simp add: eval_nat_numeral s1 s2 s3 s4)
  have t5: "learn_word_times 5 p obj_type language = Inr p5"
    by (simp add: eval_nat_numeral s1 s2 s3 s4 s5)
  show ?thesis using t4 l4 v4 s5 t5 v5 by blast
qed

section \<open>The object scan\<close>

lemma scan_objects_find:
  "scan_objects objs tile_x tile_y i =
     (case find (\<lambda>obj. get_tile_position obj = (tile_x, tile_y)) objs of
        None \<Rightarrow> None
      | Some obj \<Rightarrow> Some (i + length (takeWhile (\<lambda>obj. get_tile_position obj \<noteq> (tile_x, tile_y)) objs)))"
proof (induction objs arbitrary: i)
  case Nil
  then show ?case by simp
next
  case (Cons obj objs)
  show ?case
  proof (cases "get_tile_position obj = (tile_x, tile_y)")
    case True
    then show ?thesis by simp
  next
    case False
    then have "scan_objects (obj # objs) tile_x tile_y i = scan_objects objs tile_x tile_y (Suc i)"
      by (auto split: prod.splits)
    then show ?thesis using False Cons.IH[of "Suc i"] by (simp split: option.splits)
  qed
qed

section \<open>Movement: what a move leaves behind\<close>

lemma facing_direction:
  "p_direction (snd (get_facing_tile_position p mouse)) =
     (if \<bar>fst mouse + p_camera_offset_x p - (p_x p + p_width p div 2)\<bar>
          > \<bar>snd mouse + p_camera_offset_y p - (p_y p + p_height p div 2)\<bar>
      then (if fst mouse + p_camera_offset_x p - (p_x p + p_width p div 2) > 0
            then DIRECTION_RIGHT else DIRECTION_LEFT)
      else (if snd mouse + p_camera_offset_y p - (p_y p + p_height p div 2) > 0
            then DIRECTION_DOWN else DIRECTION_UP))"
  by (cases mouse) (simp add: get_facing_tile_position_def Let_def)

lemma facing_frame:
  "p_x (snd (get_facing_tile_position p mouse)) = p_x p"
  "p_y (snd (get_facing_tile_position p mouse)) = p_y p"
  "p_width (snd (get_facing_tile_position p mouse)) = p_width p"
  "p_height (snd (get_facing_tile_position p mouse)) = p_height p"
  "p_camera_offset_x (snd (get_facing_tile_position p mouse)) = p_camera_offset_x p"
  "p_camera_offset_y (snd (get_facing_tile_position p mouse)) = p_camera_offset_y p"
  "p_tile_x (snd (get_facing_tile_position p mouse)) = p_tile_x p"
  "p_tile_y (snd (get_facing_tile_position p mouse)) = p_tile_y p"
  "p_chunk_x (snd (get_facing_tile_position p mouse)) = p_chunk_x p"
  "p_chunk_y (snd (get_facing_tile_position p mouse)) = p_chunk_y p"
  by (cases mouse; simp add: get_facing_tile_position_def Let_def)+

lemma target_frame:
  "p_x (update_interaction_target p w mouse) = p_x p"
  "p_y (update_interaction_target p w mouse) = p_y p"
  "p_width (update_interaction_target p w mouse) = p_width p"
  "p_height (update_interaction_target p w mouse) = p_height p"
  "p_camera_offset_x (update_interaction_target p w mouse) = p_camera_offset_x p"
  "p_camera_offset_y (update_interaction_target p w mouse) = p_camera_offset_y p"
  "p_tile_x (update_interaction_target p w mouse) = p_tile_x p"
  "p_tile_y (update_interaction_target p w mouse) = p_tile_y p"
  "p_chunk_x (update_interaction_target p w mouse) = p_chunk_x p"
  "p_chunk_y (update_interaction_target p w mouse) = p_chunk_y p"
  "p_direction (update_interaction_target p w mouse) = p_direction (snd (get_facing_tile_position p mouse))"
  by (cases "get_facing_tile_position p mouse"; cases "fst (get_facing_tile_position p mouse)";
      use facing_frame[of p mouse] in \<open>simp add: update_interaction_target_def\<close>)+

lemma facing_idem:
  "p_direction (snd (get_facing_tile_position (update_interaction_target p w mouse) mouse))
     = p_direction (snd (get_facing_tile_position p mouse))"
  by (simp add: facing_direction target_frame)

lemma step_frame:
  "p_x (move_direction (move_animation p dx dy) dx dy) = p_x p"
  "p_y (move_direction (move_animation p dx dy) dx dy) = p_y p"
  "p_tile_x (move_direction (move_animation p dx dy) dx dy) = p_tile_x p"
  "p_tile_y (move_direction (move_animation p dx dy) dx dy) = p_tile_y p"
  "p_chunk_x (move_direction (move_animation p dx dy) dx dy) = p_chunk_x p"
  "p_chunk_y (move_direction (move_animation p dx dy) dx dy) = p_chunk_y p"
  by (simp_all add: move_direction_def move_animation_def Let_def)

lemma move_result:
  assumes "is_tile_passable P w ((p_x p + dx) div TILE_SIZE) ((p_y p + dy) div TILE_SIZE) os = Some (ok, w')"
  shows "\<exists>p'. move P p dx dy w is_sprinting mouse os = Some (p', w')
     \<and> (if ok then p_x p' = p_x p + dx \<and> p_y p' = p_y p + dy
                  \<and> p_tile_x p' = (p_x p + dx) div TILE_SIZE
                  \<and> p_tile_y p' = (p_y p + dy) div TILE_SIZE
                  \<and> p_chunk_x p' = (p_x p + dx) div TILE_SIZE div CHUNK_SIZE
                  \<and> p_chunk_y p' = (p_y p + dy) div TILE_SIZE div CHUNK_SIZE
         else p_x p' = p_x p \<and> p_y p' = p_y p
                  \<and> p_tile_x p' = p_tile_x p \<and> p_tile_y p' = p_tile_y p
                  \<and> p_chunk_x p' = p_chunk_x p \<and> p_chunk_y p' = p_chunk_y p)
     \<and> p_direction p' = p_direction (snd (get_facing_tile_position p' mouse))"
proof -
  define q0 where "q0 = (if is_sprinting then p\<lparr>p_speed := p_sprint_speed p\<rparr> else p\<lparr>p_speed := p_normal_speed p\<rparr>)"
  define q where "q = move_direction (move_animation q0 dx dy) dx dy"
  have q0: "p_x q0 = p_x p" "p_y q0 = p_y p" "p_tile_x q0 = p_tile_x p" "p_tile_y q0 = p_tile_y p"
    "p_chunk_x q0 = p_chunk_x p" "p_chunk_y q0 = p_chunk_y p"
    by (simp_all add: q0_def)
  have q: "p_x q = p_x p" "p_y q = p_y p" "p_tile_x q = p_tile_x p" "p_tile_y q = p_tile_y p"
    "p_chunk_x q = p_chunk_x p" "p_chunk_y q = p_chunk_y p"
    by (simp_all add: q_def step_frame q0)
  define r where "r = (if ok then
                    q\<lparr>p_x := p_x p + dx, p_y := p_y p + dy,
                      p_tile_x := (p_x p + dx) div TILE_SIZE, p_tile_y := (p_y p + dy) div TILE_SIZE,
                      p_chunk_x := (p_x p + dx) div TILE_SIZE div CHUNK_SIZE,
                      p_chunk_y := (p_y p + dy) div TILE_SIZE div CHUNK_SIZE\<rparr>
                  else q)"
  have m: "move P p dx dy w is_sprinting mouse os = Some (update_interaction_target r w' mouse, w')"
    using assms q by (simp add: move_def Let_def q0_def[symmetric] q_def[symmetric] r_def)
  have "(if ok then p_x r = p_x p + dx \<and> p_y r = p_y p + dy
                  \<and> p_tile_x r = (p_x p + dx) div TILE_SIZE
                  \<and> p_tile_y r = (p_y p + dy) div TILE_SIZE
                  \<and> p_chunk_x r = (p_x p + dx) div TILE_SIZE div CHUNK_SIZE
                  \<and> p_chunk_y r = (p_y p + dy) div TILE_SIZE div CHUNK_SIZE
         else p_x r = p_x p \<and> p_y r = p_y p
                  \<and> p_tile_x r = p_tile_x p \<and> p_tile_y r = p_tile_y p
                  \<and> p_chunk_x r = p_chunk_x p \<and> p_chunk_y r = p_chunk_y p)"
    by (simp add: r_def q)
  then show ?thesis using m by (simp add: target_frame facing_idem)
qed


lemma move_raises:
  assumes "is_tile_passable P w ((p_x p + dx) div TILE_SIZE) ((p_y p + dy) div TILE_SIZE) os = None"
  shows "move P p dx dy w is_sprinting mouse os = None"
proof -
  define q0 where "q0 = (if is_sprinting then p\<lparr>p_speed := p_sprint_speed p\<rparr> else p\<lparr>p_speed := p_normal_speed p\<rparr>)"
  define q where "q = move_direction (move_animation q0 dx dy) dx dy"
  have q0: "p_x q0 = p_x p" "p_y q0 = p_y p" by (simp_all add: q0_def)
  have q: "p_x q = p_x p" "p_y q = p_y p" by (simp_all add: q_def step_frame q0)
  show ?thesis using assms q by (simp add: move_def Let_def q0_def[symmetric] q_def[symmetric])
qed

lemma is_tile_passable_total:
  assumes "world_ok (w :: 's world)"
  shows "\<exists>ok w'. is_tile_passable P w tile_x tile_y os = Some (ok, w') \<and> world_ok w'"
proof -
  from get_chunk_total[OF assms, of P "tile_x div CHUNK_SIZE" "tile_y div CHUNK_SIZE" os]
  obtain c w' where g: "get_chunk P w (tile_x div CHUNK_SIZE) (tile_y div CHUNK_SIZE) os = Some (c, w')"
    and wf: "wf_grid (c_tiles c)" and ok: "world_ok w'" by blast
  have r: "tile_read (c_tiles c) (tile_y mod CHUNK_SIZE) (tile_x mod CHUNK_SIZE)
             = Some (c_tiles c ! nat (tile_y mod CHUNK_SIZE) ! nat (tile_x mod CHUNK_SIZE))"
    using wf local_in_chunk[of tile_x] local_in_chunk[of tile_y] by (simp add: tile_read_wf)
  show ?thesis using local_in_chunk[of tile_x] local_in_chunk[of tile_y] ok
    by (simp add: is_tile_passable_def get_tile_def Let_def g chunk_get_tile_def r)
qed

section \<open>Lookup, distance and drawing\<close>

lemma find_first_index:
  "find Q xs = Some x \<Longrightarrow>
     length (takeWhile (\<lambda>y. \<not> Q y) xs) < length xs \<and> xs ! length (takeWhile (\<lambda>y. \<not> Q y) xs) = x \<and> Q x"
  by (induction xs) (auto split: if_splits)

lemma click_distance_le:
  assumes "0 \<le> r"
  shows "click_distance a b c d \<le> real_of_int r \<longleftrightarrow> (a - c)\<^sup>2 + (b - d)\<^sup>2 \<le> r\<^sup>2"
proof -
  have "sqrt (real_of_int ((a - c)\<^sup>2 + (b - d)\<^sup>2)) \<le> real_of_int r
        \<longleftrightarrow> sqrt (real_of_int ((a - c)\<^sup>2 + (b - d)\<^sup>2)) \<le> sqrt ((real_of_int r)\<^sup>2)"
    using assms by simp
  also have "\<dots> \<longleftrightarrow> real_of_int ((a - c)\<^sup>2 + (b - d)\<^sup>2) \<le> (real_of_int r)\<^sup>2"
    by (rule real_sqrt_le_iff)
  also have "\<dots> \<longleftrightarrow> real_of_int ((a - c)\<^sup>2 + (b - d)\<^sup>2) \<le> real_of_int (r\<^sup>2)"
    by simp
  also have "\<dots> \<longleftrightarrow> (a - c)\<^sup>2 + (b - d)\<^sup>2 \<le> r\<^sup>2"
    by (rule of_int_le_iff)
  finally show ?thesis by (simp add: click_distance_def)
qed

lemma click_without_range:
  "p_interaction_range (g_player g) = None \<Longrightarrow> handle_mouse_interaction g mouse = Inl AttributeError"
  by (cases mouse) (simp add: handle_mouse_interaction_def Let_def)

lemma draw_is_mastered_entry:
  "draw_is_mastered target_language words_learned name =
     (case ledger_entry words_learned target_language name of None \<Rightarrow> False | Some e \<Rightarrow> e_mastered e)"
  by (simp add: draw_is_mastered_def ledger_entry_def split: option.splits)

section \<open>Region generation is deterministic\<close>

text \<open>
  Claim C1. Generating the grid of a region never fails and gives the same grid whatever
  the state of the global generator at the call (\<open>s1\<close>, \<open>s2\<close>) and whatever the
  operating system seeds it with afterwards (\<open>os1\<close>, \<open>os2\<close>); and in any two worlds
  \<open>w1\<close> and \<open>w2\<close>, with whatever chunks they have cached and whatever generator state
  earlier calls have left, dropping the region from the cache and asking for it again
  yields a chunk with that same grid.
\<close>

theorem generation_deterministic:
  "generate_tiles P rx ry s1 os1 \<noteq> None
   \<and> map_option fst (generate_tiles P rx ry s1 os1) = map_option fst (generate_tiles P rx ry s2 os2)
   \<and> map_option (c_tiles \<circ> fst) (get_chunk P (evict w1 (rx, ry)) rx ry os1)
       = map_option fst (generate_tiles P rx ry s2 os2)
   \<and> map_option (c_tiles \<circ> fst) (get_chunk P (evict w1 (rx, ry)) rx ry os1)
       = map_option (c_tiles \<circ> fst) (get_chunk P (evict w2 (rx, ry)) rx ry os2)"
proof -
  have a: "generate_tiles P rx ry s1 os1 \<noteq> None"
    using generate_tiles_total[of P rx ry s1 os1] by auto
  have b: "\<And>s s' os os'. map_option fst (generate_tiles P rx ry s os) = map_option fst (generate_tiles P rx ry s' os')"
    by (cases "generate_features P rx ry (grass_grid, seed_str P (chunk_seed rx ry))")
       (auto simp: generate_tiles_def seed_def Let_def)
  have c: "map_option (c_tiles \<circ> fst) (get_chunk P (evict w (rx, ry)) rx ry os)
       = map_option fst (generate_tiles P rx ry (w_rng w) os)" for w os
    by (cases "generate_tiles P rx ry (w_rng w) os")
       (auto simp: get_chunk_def evict_def Chunk_def)
  show ?thesis using a b[of s1 os1 s2 os2] c[of w1 os1] c[of w2 os2] b[of "w_rng w1" os1 s2 os2]
      b[of "w_rng w2" os2 s2 os2] by simp
qed

section \<open>Tiles, regions and local coordinates\<close>

text \<open>
  Claim C2. For all integers \<open>tx\<close> and \<open>ty\<close>, \<open>get_tile\<close> asks for the chunk at
  \<open>tx div CHUNK_SIZE\<close>, \<open>ty div CHUNK_SIZE\<close> and reads it at the local coordinates
  \<open>tx mod CHUNK_SIZE\<close>, \<open>ty mod CHUNK_SIZE\<close>; these compose back to \<open>(tx, ty)\<close>
  through that chunk's \<open>get_world_position\<close>; the local coordinates lie
  in \<open>[0, CHUNK_SIZE)\<close>; and the coordinate \<open>-1\<close> has chunk coordinate \<open>-1\<close> and
  local coordinate 15.
\<close>

theorem tile_region_roundtrip:
  "get_tile P w tx ty os =
     Option.bind (get_chunk P w (tx div CHUNK_SIZE) (ty div CHUNK_SIZE) os)
       (\<lambda>(c, w'). Option.bind (chunk_get_tile c (tx mod CHUNK_SIZE) (ty mod CHUNK_SIZE))
          (\<lambda>tile. Some (tile, w')))
   \<and> get_world_position \<lparr>c_chunk_x = tx div CHUNK_SIZE, c_chunk_y = ty div CHUNK_SIZE, c_tiles = ts, c_objects = objs\<rparr>
       (tx mod CHUNK_SIZE) (ty mod CHUNK_SIZE) = (tx, ty)
   \<and> 0 \<le> tx mod CHUNK_SIZE \<and> tx mod CHUNK_SIZE < CHUNK_SIZE
   \<and> 0 \<le> ty mod CHUNK_SIZE \<and> ty mod CHUNK_SIZE < CHUNK_SIZE
   \<and> (- 1) div CHUNK_SIZE = - 1 \<and> (- 1) mod CHUNK_SIZE = 15"
proof -
  have "get_tile P w tx ty os =
     Option.bind (get_chunk P w (tx div CHUNK_SIZE) (ty div CHUNK_SIZE) os)
       (\<lambda>(c, w'). Option.bind (chunk_get_tile c (tx mod CHUNK_SIZE) (ty mod CHUNK_SIZE))
          (\<lambda>tile. Some (tile, w')))"
    by (simp add: get_tile_def Let_def)
  then show ?thesis by (simp add: get_world_position_def CHUNK_SIZE_def)
qed

section \<open>Revealing a word\<close>

text \<open>
  Claim C3. For every cell type and each of the game's languages, \<open>learn_word\<close> returns
  the entry that the ledger holds afterwards. When there was no entry, the new one has one
  view, is not mastered, and the score grows by 10. When there was one, its views grow by
  one; if they reach 5 and the entry was not mastered it becomes mastered and the score
  grows by 50; if it was not mastered and stays so the score grows by 2; if it was mastered
  the score does not change. Starting without an entry, the entry is not mastered after
  four calls and the fifth call returns it mastered with five views.
\<close>

theorem learn_word_reveal:
  assumes "language \<in> set LANGUAGES"
  shows "(\<exists>e' p'. learn_word p obj_type language = Inr (e', p')
     \<and> ledger_entry (p_words_learned p') language (name_of obj_type) = Some e'
     \<and> (case ledger_entry (p_words_learned p) language (name_of obj_type) of
          None \<Rightarrow> e_views e' = 1 \<and> \<not> e_mastered e' \<and> p_score p' = p_score p + 10
        | Some e \<Rightarrow> e_views e' = e_views e + 1 \<and>
            (if e_views e + 1 \<ge> 5 \<and> \<not> e_mastered e then e_mastered e' \<and> p_score p' = p_score p + 50
             else if \<not> e_mastered e then \<not> e_mastered e' \<and> p_score p' = p_score p + 2
             else e_mastered e' \<and> p_score p' = p_score p)))
   \<and> (ledger_entry (p_words_learned p) language (name_of obj_type) = None \<longrightarrow>
       (\<exists>p4 e4 p5 e5. learn_word_times 4 p obj_type language = Inr p4
          \<and> ledger_entry (p_words_learned p4) language (name_of obj_type) = Some e4
          \<and> \<not> e_mastered e4
          \<and> learn_word p4 obj_type language = Inr (e5, p5)
          \<and> learn_word_times 5 p obj_type language = Inr p5
          \<and> e_views e5 = 5 \<and> e_mastered e5))"
proof -
  from language_has_label[OF assms] obtain w where l: "tile_item obj_type language = Some w" by blast
  have a: "\<exists>e' p'. learn_word p obj_type language = Inr (e', p')
     \<and> ledger_entry (p_words_learned p') language (name_of obj_type) = Some e'
     \<and> (case ledger_entry (p_words_learned p) language (name_of obj_type) of
          None \<Rightarrow> e_views e' = 1 \<and> \<not> e_mastered e' \<and> p_score p' = p_score p + 10
        | Some e \<Rightarrow> e_views e' = e_views e + 1 \<and>
            (if e_views e + 1 \<ge> 5 \<and> \<not> e_mastered e then e_mastered e' \<and> p_score p' = p_score p + 50
             else if \<not> e_mastered e then \<not> e_mastered e' \<and> p_score p' = p_score p + 2
             else e_mastered e' \<and> p_score p' = p_score p))"
    using learn_word_step[OF l, of p] by (auto split: option.splits)
  show ?thesis using a learn_word_five[OF l, of p] by blast
qed

theorem learn_word_reveal_witness:
  "''spanish'' \<in> set LANGUAGES
   \<and> ledger_entry (p_words_learned (Player 0 0)) ''spanish'' (name_of Tree) = None
   \<and> (\<exists>p4 e4 p5 e5. learn_word_times 4 (Player 0 0) Tree ''spanish'' = Inr p4
          \<and> ledger_entry (p_words_learned p4) ''spanish'' (name_of Tree) = Some e4
          \<and> \<not> e_mastered e4
          \<and> learn_word p4 Tree ''spanish'' = Inr (e5, p5)
          \<and> learn_word_times 5 (Player 0 0) Tree ''spanish'' = Inr p5
          \<and> e_views e5 = 5 \<and> e_mastered e5)"
proof -
  have h: "''spanish'' \<in> set LANGUAGES" by (simp add: LANGUAGES_def)
  have f: "ledger_entry (p_words_learned (Player 0 0)) ''spanish'' (name_of Tree) = None"
    by (simp add: ledger_entry_def Player_def)
  show ?thesis using h f learn_word_reveal[OF h, of "Player 0 0" Tree] by blast
qed

section \<open>Tile lookup is total\<close>

text \<open>
  Claim C10. In a world whose cached chunks have well-formed grids (the empty world has,
  and \<open>get_chunk\<close> keeps it so), for all integers \<open>tile_x\<close> and \<open>tile_y\<close> the lookup
  creates or finds the chunk of the tile, leaves it in the cache, reads a tile at the
  local coordinates and returns it: \<open>get_tile\<close> raises nothing and never returns
  \<^verbatim>\<open>None\<close>, and \<open>is_tile_passable\<close> returns that tile's \<open>passable\<close> attribute.
\<close>

theorem get_tile_total:
  assumes "world_ok (w :: 's world)"
  shows "\<exists>c t w'. get_chunk P w (tile_x div CHUNK_SIZE) (tile_y div CHUNK_SIZE) os = Some (c, w')
           \<and> w_chunks w' (tile_x div CHUNK_SIZE, tile_y div CHUNK_SIZE) = Some c
           \<and> chunk_get_tile c (tile_x mod CHUNK_SIZE) (tile_y mod CHUNK_SIZE) = Some (Some t)
           \<and> get_tile P w tile_x tile_y os = Some (Some t, w')
           \<and> is_tile_passable P w tile_x tile_y os = Some (passable t, w')
           \<and> world_ok w'"
proof -
  from get_chunk_total[OF assms, of P "tile_x div CHUNK_SIZE" "tile_y div CHUNK_SIZE" os]
  obtain c w' where g: "get_chunk P w (tile_x div CHUNK_SIZE) (tile_y div CHUNK_SIZE) os = Some (c, w')"
    and wf: "wf_grid (c_tiles c)"
    and k: "w_chunks w' (tile_x div CHUNK_SIZE, tile_y div CHUNK_SIZE) = Some c"
    and ok: "world_ok w'" by blast
  have r: "tile_read (c_tiles c) (tile_y mod CHUNK_SIZE) (tile_x mod CHUNK_SIZE)
             = Some (c_tiles c ! nat (tile_y mod CHUNK_SIZE) ! nat (tile_x mod CHUNK_SIZE))"
    using wf local_in_chunk[of tile_x] local_in_chunk[of tile_y] by (simp add: tile_read_wf)
  have ct: "chunk_get_tile c (tile_x mod CHUNK_SIZE) (tile_y mod CHUNK_SIZE)
             = Some (Some (c_tiles c ! nat (tile_y mod CHUNK_SIZE) ! nat (tile_x mod CHUNK_SIZE)))"
    using local_in_chunk[of tile_x] local_in_chunk[of tile_y] by (simp add: chunk_get_tile_def r)
  have gt: "get_tile P w tile_x tile_y os
             = Some (Some (c_tiles c ! nat (tile_y mod CHUNK_SIZE) ! nat (tile_x mod CHUNK_SIZE)), w')"
    by (simp add: get_tile_def Let_def g ct)
  show ?thesis using g k ok ct gt by (simp add: is_tile_passable_def)
qed

theorem get_tile_total_witness:
  "world_ok (World ()) \<and>
   (\<exists>t w'. get_tile zero_prng (World ()) (- 1) (- 1) () = Some (Some t, w')
      \<and> is_tile_passable zero_prng (World ()) (- 1) (- 1) () = Some (passable t, w'))"
  using get_tile_total[OF world_ok_World, where s1 = "()" and P = zero_prng and tile_x = "- 1" and tile_y = "- 1" and os = "()"]
    world_ok_World[of "()"]
  by blast

section \<open>Loading a save file without a score\<close>

text \<open>
  Claim C7. A missing file and a file that is not JSON leave the fresh state and raise
  nothing. A file that is JSON but has no \<^verbatim>\<open>"score"\<close> field, whether it is the empty
  object or has every other field, makes \<open>load_progress\<close> raise KeyError, which its
  \<^verbatim>\<open>except\<close> clause does not catch.
\<close>

theorem load_progress_missing_score:
  "load_progress fresh_state (Parsed (JObject [])) = Inl KeyError
   \<and> load_progress fresh_state
        (Parsed (JObject [(''words_learned'', JObject []),
                          (''position'', JObject [(''x'', JInt 0), (''y'', JInt 0)]),
                          (''settings'', JObject [(''language'', JString ''spanish'')])])) = Inl KeyError
   \<and> load_progress fresh_state FileMissing = Inr fresh_state
   \<and> load_progress fresh_state NotJSON = Inr fresh_state"
  by (simp add: load_progress_def load_parsed_def dict_get_def dict_item_def as_number_def)

section \<open>A move commits on a passable destination only\<close>

text \<open>
  Claim C4, as the code has it. In a world whose cached chunks have well-formed grids, a
  move request \<open>(dx, dy)\<close> makes one passability test, at the tile of the combined
  destination \<open>(x + dx, y + dy)\<close>, and returns. When the tile is passable the position
  and the tile and chunk coordinates are those of the destination; when it is not, they
  are unchanged. The facing with which the call returns is the one that the closing
  \<^verbatim>\<open>update_interaction_target\<close> derives from the pointer, whatever the requested delta:
  computing the facing from the pointer again changes nothing.
\<close>

theorem move_commit:
  assumes "world_ok (w :: 's world)"
  shows "\<exists>ok p' w'.
       is_tile_passable P w ((p_x p + dx) div TILE_SIZE) ((p_y p + dy) div TILE_SIZE) os = Some (ok, w')
     \<and> move P p dx dy w is_sprinting mouse os = Some (p', w')
     \<and> (if ok then p_x p' = p_x p + dx \<and> p_y p' = p_y p + dy
                  \<and> p_tile_x p' = (p_x p + dx) div TILE_SIZE
                  \<and> p_tile_y p' = (p_y p + dy) div TILE_SIZE
                  \<and> p_chunk_x p' = (p_x p + dx) div TILE_SIZE div CHUNK_SIZE
                  \<and> p_chunk_y p' = (p_y p + dy) div TILE_SIZE div CHUNK_SIZE
         else p_x p' = p_x p \<and> p_y p' = p_y p
                  \<and> p_tile_x p' = p_tile_x p \<and> p_tile_y p' = p_tile_y p
                  \<and> p_chunk_x p' = p_chunk_x p \<and> p_chunk_y p' = p_chunk_y p)
     \<and> p_direction p' = p_direction (snd (get_facing_tile_position p' mouse))"
proof -
  from is_tile_passable_total[OF assms, of P "(p_x p + dx) div TILE_SIZE" "(p_y p + dy) div TILE_SIZE" os]
  obtain ok w' where
    "is_tile_passable P w ((p_x p + dx) div TILE_SIZE) ((p_y p + dy) div TILE_SIZE) os = Some (ok, w')"
    by blast
  then show ?thesis using move_result[of P w p dx dy os ok w' is_sprinting mouse] by blast
qed

text \<open>
  The theorem at the origin of the empty world under the test generator, with a request
  to the right and the pointer to the left of the player.
\<close>

theorem move_commit_witness:
  "world_ok (World ()) \<and>
   (\<exists>ok p' w'.
       is_tile_passable zero_prng (World ()) ((p_x (Player 0 0) + 3) div TILE_SIZE)
          ((p_y (Player 0 0) + 0) div TILE_SIZE) () = Some (ok, w')
     \<and> move zero_prng (Player 0 0) 3 0 (World ()) False (0, 16) () = Some (p', w')
     \<and> p_direction p' = p_direction (snd (get_facing_tile_position p' (0, 16))))"
proof -
  have h: "world_ok (World ())" by (rule world_ok_World)
  show ?thesis
    using h move_commit[OF h, where P = zero_prng and p = "Player 0 0" and dx = 3 and dy = 0
        and os = "()" and is_sprinting = False and mouse = "(0, 16)"]
    by blast
qed

text \<open>
  Claim C4 as the specification states it fails there. Under the test generator the tile
  \<open>(0, 0)\<close> is a bush, so the request \<open>(3, 0)\<close> of the player at the origin is
  refused and the position stays 0. The requested delta points right, and the direction
  block sets the facing to the right; with the pointer at \<open>(0, 16)\<close>, left of the
  player's centre \<open>(16, 16)\<close>, the call returns facing left.
\<close>

theorem move_commit_counterexample:
  "map_option fst (is_tile_passable zero_prng (World ()) 0 0 ()) = Some False
   \<and> map_option (p_x \<circ> fst) (move zero_prng (Player 0 0) 3 0 (World ()) False (0, 16) ()) = Some 0
   \<and> map_option (p_direction \<circ> fst) (move zero_prng (Player 0 0) 3 0 (World ()) False (0, 16) ())
        = Some DIRECTION_LEFT
   \<and> p_direction (move_direction (Player 0 0) 3 0) = DIRECTION_RIGHT
   \<and> DIRECTION_LEFT \<noteq> DIRECTION_RIGHT"
  by code_simp

section \<open>The facing set during a move\<close>

text \<open>
  Claim C5, as the code has it. The direction block of a move sets the facing from the
  sign of \<open>dx\<close> when \<open>dx\<close> is not zero, whatever \<open>dy\<close> is; otherwise from the sign
  of \<open>dy\<close> when that is not zero; and leaves it as it was when both are zero. Whenever
  the move call returns, the facing it returns with is the one derived from the pointer.
\<close>

theorem move_facing:
  "p_direction (move_direction p dx dy) =
     (if dx > 0 then DIRECTION_RIGHT else if dx < 0 then DIRECTION_LEFT
      else if dy > 0 then DIRECTION_DOWN else if dy < 0 then DIRECTION_UP
      else p_direction p)
   \<and> (\<forall>p' w'. move P p dx dy w is_sprinting mouse os = Some (p', w') \<longrightarrow>
         p_direction p' = p_direction (snd (get_facing_tile_position p' mouse)))"
proof -
  have a: "p_direction (move_direction p dx dy) =
     (if dx > 0 then DIRECTION_RIGHT else if dx < 0 then DIRECTION_LEFT
      else if dy > 0 then DIRECTION_DOWN else if dy < 0 then DIRECTION_UP
      else p_direction p)"
    by (simp add: move_direction_def)
  have b: "p_direction p' = p_direction (snd (get_facing_tile_position p' mouse))"
    if m: "move P p dx dy w is_sprinting mouse os = Some (p', w')" for p' w'
  proof (cases "is_tile_passable P w ((p_x p + dx) div TILE_SIZE) ((p_y p + dy) div TILE_SIZE) os")
    case None
    then have "move P p dx dy w is_sprinting mouse os = None"
      by (rule move_raises)
    then show ?thesis using m by simp
  next
    case (Some r)
    obtain ok w1 where r: "r = (ok, w1)" by (cases r)
    from move_result[of P w p dx dy os ok w1 is_sprinting mouse] Some r m show ?thesis by auto
  qed
  show ?thesis using a b by blast
qed

text \<open>The theorem at a move that returns: the origin of the empty world.\<close>

theorem move_facing_witness:
  "\<exists>p' w'. move zero_prng (Player 0 0) 1 5 (World ()) False (16, 0) () = Some (p', w')
      \<and> p_direction p' = p_direction (snd (get_facing_tile_position p' (16, 0)))"
proof -
  from is_tile_passable_total[OF world_ok_World, where s1 = "()" and P = zero_prng
      and tile_x = "(p_x (Player 0 0) + 1) div TILE_SIZE"
      and tile_y = "(p_y (Player 0 0) + 5) div TILE_SIZE" and os = "()"]
  obtain ok w' where "is_tile_passable zero_prng (World ()) ((p_x (Player 0 0) + 1) div TILE_SIZE)
      ((p_y (Player 0 0) + 5) div TILE_SIZE) () = Some (ok, w')" by blast
  from move_result[OF this, of False "(16, 0)"] obtain p' where
    m: "move zero_prng (Player 0 0) 1 5 (World ()) False (16, 0) () = Some (p', w')" by blast
  show ?thesis
    using m move_facing[where P = zero_prng and p = "Player 0 0" and dx = 1 and dy = 5
        and w = "World ()" and is_sprinting = False and mouse = "(16, 0)" and os = "()"]
    by blast
qed

text \<open>
  Claim C5 as the specification states it fails for the request \<open>(1, 5)\<close>, whose
  dominant delta points down: the direction block sets the facing to the right, and with
  the pointer at \<open>(16, 0)\<close>, above the player's centre, the call returns facing up. On
  the tie \<open>(1, 1)\<close> the block sets the facing to the right and does not leave it down.
\<close>

theorem move_facing_counterexample:
  "p_direction (move_direction (Player 0 0) 1 5) = DIRECTION_RIGHT
   \<and> p_direction (move_direction (Player 0 0) 1 1) = DIRECTION_RIGHT
   \<and> p_direction (Player 0 0) = DIRECTION_DOWN
   \<and> map_option (p_direction \<circ> fst) (move zero_prng (Player 0 0) 1 5 (World ()) False (16, 0) ())
        = Some DIRECTION_UP
   \<and> DIRECTION_RIGHT \<noteq> DIRECTION_DOWN \<and> DIRECTION_UP \<noteq> DIRECTION_DOWN"
  by code_simp

section \<open>The mastered flag of a game object\<close>

text \<open>
  Claim C6, as the code has it. The \<^verbatim>\<open>mastered\<close> flag is a field of the object: it is
  false when the object is created, and a draw of the object while it is on screen sets it
  when the ledger entry for the object's type in the selected language is mastered. The
  value that a draw uses for the label, \<^verbatim>\<open>is_mastered\<close>, is read from the ledger: it is
  the entry's mastered flag, and false without an entry.
\<close>

theorem mastered_flag_stored:
  "o_mastered (fst (GameObject P x y obj_type s)) = False
   \<and> (\<not> (o_x obj - offset_x + o_width obj < 0 \<or> o_x obj - offset_x > screen_w \<or>
          o_y obj - offset_y + o_height obj < 0 \<or> o_y obj - offset_y > screen_h)
      \<and> draw_is_mastered target_language words_learned (name_of (o_obj_type obj))
      \<longrightarrow> o_mastered (draw obj offset_x offset_y target_language words_learned screen_w screen_h))
   \<and> draw_is_mastered target_language words_learned name =
       (case ledger_entry words_learned target_language name of
          None \<Rightarrow> False | Some e \<Rightarrow> e_mastered e)"
  by (auto simp: GameObject_def draw_def Let_def draw_is_mastered_entry split: prod.splits)

text \<open>The theorem at a tree on screen and a ledger that has mastered the tree.\<close>

theorem mastered_flag_stored_witness:
  "\<not> (o_x (fst (GameObject zero_prng 0 0 Tree ())) - 0 + o_width (fst (GameObject zero_prng 0 0 Tree ())) < 0
       \<or> o_x (fst (GameObject zero_prng 0 0 Tree ())) - 0 > 800
       \<or> o_y (fst (GameObject zero_prng 0 0 Tree ())) - 0 + o_height (fst (GameObject zero_prng 0 0 Tree ())) < 0
       \<or> o_y (fst (GameObject zero_prng 0 0 Tree ())) - 0 > 600)
   \<and> draw_is_mastered ''spanish''
        [''spanish'' \<mapsto> [''tree'' \<mapsto> \<lparr>e_word = AStr (spanish_of Tree), e_english = ''tree'',
                                       e_views = 5, e_mastered = True\<rparr>]]
        (name_of (o_obj_type (fst (GameObject zero_prng 0 0 Tree ()))))
   \<and> o_mastered (draw (fst (GameObject zero_prng 0 0 Tree ())) 0 0 ''spanish''
        [''spanish'' \<mapsto> [''tree'' \<mapsto> \<lparr>e_word = AStr (spanish_of Tree), e_english = ''tree'',
                                       e_views = 5, e_mastered = True\<rparr>]] 800 600)"
proof -
  have a: "\<not> (o_x (fst (GameObject zero_prng 0 0 Tree ())) - 0 + o_width (fst (GameObject zero_prng 0 0 Tree ())) < 0
       \<or> o_x (fst (GameObject zero_prng 0 0 Tree ())) - 0 > 800
       \<or> o_y (fst (GameObject zero_prng 0 0 Tree ())) - 0 + o_height (fst (GameObject zero_prng 0 0 Tree ())) < 0
       \<or> o_y (fst (GameObject zero_prng 0 0 Tree ())) - 0 > 600)"
    by (simp add: GameObject_def zero_prng_def TILE_SIZE_def)
  have b: "draw_is_mastered ''spanish''
        [''spanish'' \<mapsto> [''tree'' \<mapsto> \<lparr>e_word = AStr (spanish_of Tree), e_english = ''tree'',
                                       e_views = 5, e_mastered = True\<rparr>]]
        (name_of (o_obj_type (fst (GameObject zero_prng 0 0 Tree ()))))"
    by (simp add: GameObject_def zero_prng_def draw_is_mastered_def)
  show ?thesis
    using a b mastered_flag_stored[where obj = "fst (GameObject zero_prng 0 0 Tree ())" and offset_x = 0
      and offset_y = 0 and screen_w = 800 and screen_h = 600 and target_language = "''spanish''"
      and words_learned = "[''spanish'' \<mapsto> [''tree'' \<mapsto> \<lparr>e_word = AStr (spanish_of Tree),
            e_english = ''tree'', e_views = 5, e_mastered = True\<rparr>]]"
      and P = zero_prng and x = 0 and y = 0 and obj_type = Tree and s = "()" and name = "''tree''"]
    by blast
qed

text \<open>
  Claim C6 as the specification states it fails after the fifth reveal of a tree in
  Spanish: the ledger entry is mastered, and a tree object that has not been drawn since
  still has its flag false, so flag and ledger do not agree.
\<close>

theorem mastered_flag_counterexample:
  "map_sum id (mastered_agrees (fst (GameObject zero_prng 0 0 Tree ())) ''spanish'' \<circ> p_words_learned)
      (learn_word_times 5 (Player 0 0) Tree ''spanish'') = Inr False"
  by (simp add: eval_nat_numeral learn_word_def tile_item_def dd_get_def Player_def Let_def
      mastered_agrees_def ledger_entry_def GameObject_def zero_prng_def)

section \<open>Looking an object up by its tile\<close>

text \<open>
  Claim C8. \<open>get_object_at_tile\<close> reads the world and returns a reference or nothing; it
  has no world to return, since the method assigns nothing and calls neither
  \<^verbatim>\<open>get_chunk\<close> nor \<^verbatim>\<open>create_game_objects\<close>. When the chunk of the tile is not in the
  cache it returns \<^verbatim>\<open>None\<close>. When it is, the result is that of a search through the
  chunk's object list for the first object whose tile position is the queried tile:
  \<^verbatim>\<open>None\<close> when there is none, and otherwise a reference to that object.
\<close>

theorem get_object_at_tile_lookup:
  "(case w_chunks w (tile_x div CHUNK_SIZE, tile_y div CHUNK_SIZE) of
      None \<Rightarrow> get_object_at_tile w tile_x tile_y = None
    | Some c \<Rightarrow>
        (case find (\<lambda>obj. get_tile_position obj = (tile_x, tile_y)) (c_objects c) of
           None \<Rightarrow> get_object_at_tile w tile_x tile_y = None
         | Some obj \<Rightarrow>
             (\<exists>i. get_object_at_tile w tile_x tile_y
                    = Some ((tile_x div CHUNK_SIZE, tile_y div CHUNK_SIZE), i)
                \<and> deref w ((tile_x div CHUNK_SIZE, tile_y div CHUNK_SIZE), i) = Some obj
                \<and> get_tile_position obj = (tile_x, tile_y))))"
proof (cases "w_chunks w (tile_x div CHUNK_SIZE, tile_y div CHUNK_SIZE)")
  case None
  then show ?thesis by (simp add: get_object_at_tile_def)
next
  case (Some c)
  show ?thesis
  proof (cases "find (\<lambda>obj. get_tile_position obj = (tile_x, tile_y)) (c_objects c)")
    case None
    then show ?thesis using Some by (simp add: get_object_at_tile_def scan_objects_find)
  next
    case (Some obj)
    note f = find_first_index[OF Some]
    show ?thesis using \<open>w_chunks w (tile_x div CHUNK_SIZE, tile_y div CHUNK_SIZE) = Some c\<close> Some f
      by (simp add: get_object_at_tile_def scan_objects_find deref_def)
  qed
qed

section \<open>A click out of range\<close>

text \<open>
  Claim C9. When the player has an interaction range and the distance from the player's
  centre to the pointer's world position is greater than it, \<open>handle_mouse_interaction\<close>
  returns the game as it was: the ledger, the score, every object's flags and the word
  display are unchanged.
\<close>

theorem out_of_range_click:
  assumes "p_interaction_range (g_player g) = Some r"
    and "click_distance (fst mouse + g_camera_x g) (snd mouse + g_camera_y g)
           (p_x (g_player g) + p_width (g_player g) div 2)
           (p_y (g_player g) + p_height (g_player g) div 2) > real_of_int r"
  shows "handle_mouse_interaction g mouse = Inr g"
  using assms by (cases mouse) (simp add: handle_mouse_interaction_def Let_def)

text \<open>The theorem at a click at \<open>(500, 500)\<close> with the player at the origin.\<close>

theorem out_of_range_click_witness:
  "p_interaction_range (g_player
      \<lparr>g_player = (Player 0 0)\<lparr>p_interaction_range := Some 150\<rparr>, g_world = World (),
       g_target_language = ''spanish'', g_camera_x = 0, g_camera_y = 0, g_show_menu = False,
       g_show_word_display = False, g_word_display_timer = 0, g_current_word_data = None,
       g_word_display_showing_translation = False\<rparr>) = Some 150
   \<and> click_distance (500 + 0) (500 + 0) (0 + 32 div 2) (0 + 32 div 2) > real_of_int 150
   \<and> handle_mouse_interaction
      \<lparr>g_player = (Player 0 0)\<lparr>p_interaction_range := Some 150\<rparr>, g_world = World (),
       g_target_language = ''spanish'', g_camera_x = 0, g_camera_y = 0, g_show_menu = False,
       g_show_word_display = False, g_word_display_timer = 0, g_current_word_data = None,
       g_word_display_showing_translation = False\<rparr> (500, 500)
     = Inr \<lparr>g_player = (Player 0 0)\<lparr>p_interaction_range := Some 150\<rparr>, g_world = World (),
       g_target_language = ''spanish'', g_camera_x = 0, g_camera_y = 0, g_show_menu = False,
       g_show_word_display = False, g_word_display_timer = 0, g_current_word_data = None,
       g_word_display_showing_translation = False\<rparr>"
proof -
  have d: "click_distance (500 + 0) (500 + 0) (0 + 32 div 2) (0 + 32 div 2) > real_of_int 150"
    using click_distance_le[of 150 "500 + 0" "500 + 0" "0 + 32 div 2" "0 + 32 div 2"] by simp
  show ?thesis
    using d out_of_range_click[where r = 150 and mouse = "(500, 500)" and g =
      "\<lparr>g_player = (Player 0 0)\<lparr>p_interaction_range := Some 150\<rparr>, g_world = World (),
       g_target_language = ''spanish'', g_camera_x = 0, g_camera_y = 0, g_show_menu = False,
       g_show_word_display = False, g_word_display_timer = 0, g_current_word_data = None,
       g_word_display_showing_translation = False\<rparr>"]
    by (simp add: Player_def TILE_SIZE_def)
qed

end
